theory Spec2Isabelle
  imports Complex_Main
begin

section \<open>pyrivet: the data-interchange layer of rivet.py\<close>

text \<open>
  A shallow embedding of \<^verbatim>\<open>src/pyrivet/rivet.py\<close>: the input encoders
  (\<^verbatim>\<open>PointCloud\<close>, \<^verbatim>\<open>MetricSpace\<close>), the rectangle type \<^verbatim>\<open>Bounds\<close> and
  the three output parsers (\<^verbatim>\<open>parse_bounds\<close>, \<^verbatim>\<open>_parse_betti\<close>,
  \<^verbatim>\<open>_parse_slices\<close>).

  Conventions.
  \<^item> A Python exception is a value of \<open>error\<close>; a function that may raise returns
    \<open>error + 'a\<close> with \<open>Inl\<close> the exception.
  \<^item> Numbers (coordinates, distances) are elements of a linearly ordered ring: Python's
    \<^verbatim>\<open><\<close>, \<^verbatim>\<open>>\<close>, \<^verbatim>\<open>min\<close>, \<^verbatim>\<open>max\<close> are the order, \<^verbatim>\<open>-\<close> and \<^verbatim>\<open>abs\<close> the ring
    operations. This is exact for \<^verbatim>\<open>int\<close> and \<^verbatim>\<open>Fraction\<close> coordinates; rounding of
    binary floating point is not modelled. NaN is modelled where a claim is about the
    laws of \<^verbatim>\<open>min\<close> and \<^verbatim>\<open>max\<close>: in the corners of \<^verbatim>\<open>Bounds\<close>.
  \<^item> The builtins \<^verbatim>\<open>float\<close>, \<^verbatim>\<open>int\<close>, \<^verbatim>\<open>fractions.Fraction\<close> (text to number) and
    \<^verbatim>\<open>'{:f}'.format\<close> (number to text) are parameters of the functions that call them.
  \<^item> An output stream is the list of the strings written to it, oldest first.
\<close>

datatype error =
    IndexError
  | TypeError
  | ValueError
  | DimensionError nat nat nat
  | UnicodeDecodeError
  | ZeroDivisionError

text \<open>
  \<open>DimensionError d i k\<close> is the \<^verbatim>\<open>ValueError\<close> raised by \<^verbatim>\<open>PointCloud.__init__\<close> with the
  message \<^verbatim>\<open>"Expected points of dimension d, but point at position i has dimension k"\<close>.
\<close>

subsection \<open>Point and PointCloud\<close>

record 'a Point =
  appearance :: 'a
  coords :: "'a list"

definition Point_dimension :: "'a Point \<Rightarrow> nat" where
  "Point_dimension p = length (coords p)"

record 'a PointCloud =
  second_param_name :: "string option"
  points :: "'a Point list"
  comments :: "string option"
  dimension :: nat
  max_dist :: 'a

text \<open>The inner loop of \<^verbatim>\<open>_calc_max_dist\<close>: two independent tests per coordinate.\<close>

fun scan_coords :: "'a::linorder list \<Rightarrow> 'a \<times> 'a \<Rightarrow> 'a \<times> 'a" where
  "scan_coords [] (lo, hi) = (lo, hi)"
| "scan_coords (coord # cs) (lo, hi) =
     (let lo' = (if coord < lo then coord else lo);
          hi' = (if coord > hi then coord else hi)
      in scan_coords cs (lo', hi'))"

text \<open>The outer loop over the points.\<close>

fun scan_points :: "'a::linorder Point list \<Rightarrow> 'a \<times> 'a \<Rightarrow> 'a \<times> 'a" where
  "scan_points [] acc = acc"
| "scan_points (p # ps) acc = scan_points ps (scan_coords (coords p) acc)"

definition calc_max_dist :: "'a::linordered_idom Point list \<Rightarrow> 'a" where
  "calc_max_dist ps = (case scan_points ps (0, 0) of (lo, hi) \<Rightarrow> \<bar>hi - lo\<bar>)"

text \<open>
  The validation loop \<^verbatim>\<open>for i, p in enumerate(points)\<close>, started at index \<open>i\<close>: the index
  and dimension of the first point whose dimension is not \<open>d\<close>.
\<close>

fun check_dimensions :: "nat \<Rightarrow> nat \<Rightarrow> 'a Point list \<Rightarrow> error option" where
  "check_dimensions d i [] = None"
| "check_dimensions d i (p # ps) =
     (if Point_dimension p \<noteq> d then Some (DimensionError d i (Point_dimension p))
      else check_dimensions d (Suc i) ps)"

text \<open>
  \<^verbatim>\<open>PointCloud.__init__(points, second_param_name, comments, max_dist)\<close>. An omitted
  argument is \<open>None\<close>. \<^verbatim>\<open>if second_param_name:\<close> and \<^verbatim>\<open>max_dist or ...\<close> test truthiness:
  the empty string and the number zero are falsy, as \<open>None\<close> is.
\<close>

definition PointCloud_init ::
  "'a::linordered_idom Point list \<Rightarrow> string option \<Rightarrow> string option \<Rightarrow> 'a option
     \<Rightarrow> error + 'a PointCloud" where
  "PointCloud_init pts name cmts md =
     (case pts of
        [] \<Rightarrow> Inl IndexError
      | p0 # _ \<Rightarrow>
         (case check_dimensions (Point_dimension p0) 0 pts of
            Some e \<Rightarrow> Inl e
          | None \<Rightarrow>
              Inr \<lparr> second_param_name =
                      (case name of Some s \<Rightarrow> (if s \<noteq> [] then Some s else None) | None \<Rightarrow> None),
                    points = pts,
                    comments = cmts,
                    dimension = Point_dimension p0,
                    max_dist =
                      (case md of
                         Some m \<Rightarrow> (if m \<noteq> 0 then m else calc_max_dist pts)
                       | None \<Rightarrow> calc_max_dist pts) \<rparr>))"

subsection \<open>Strings and sequences of the host language\<close>

text \<open>
  \<^verbatim>\<open>bytes.strip()\<close> removes ASCII whitespace (tab, LF, VT, FF, CR, space) from both ends;
  \<^verbatim>\<open>str.strip()\<close> removes Unicode whitespace, which among the code points below 256 adds
  the separators 0x1C to 0x1F, NEL (0x85) and the no-break space (0xA0).
\<close>

definition bytes_space :: "char \<Rightarrow> bool" where
  "bytes_space c = (c \<in> set [CHR 0x09, CHR 0x0A, CHR 0x0B, CHR 0x0C, CHR 0x0D, CHR 0x20])"

definition str_space :: "char \<Rightarrow> bool" where
  "str_space c =
     (bytes_space c \<or> c \<in> set [CHR 0x1C, CHR 0x1D, CHR 0x1E, CHR 0x1F, CHR 0x85, CHR 0xA0])"

definition strip_with :: "(char \<Rightarrow> bool) \<Rightarrow> string \<Rightarrow> string" where
  "strip_with ws s = rev (dropWhile ws (rev (dropWhile ws s)))"

definition bytes_strip :: "string \<Rightarrow> string" where
  "bytes_strip = strip_with bytes_space"

definition str_strip :: "string \<Rightarrow> string" where
  "str_strip = strip_with str_space"

definition startswith :: "string \<Rightarrow> string \<Rightarrow> bool" where
  "startswith s prefix = (take (length prefix) s = prefix)"

text \<open>
  \<^verbatim>\<open>s.split(sep)\<close> for a one-character separator: splits at every occurrence, keeps empty
  pieces, and returns one piece (the empty string) for the empty string.
\<close>

fun split_on :: "char \<Rightarrow> string \<Rightarrow> string list" where
  "split_on sep [] = [ [] ]"
| "split_on sep (c # cs) =
     (if c = sep then [] # split_on sep cs
      else (c # hd (split_on sep cs)) # tl (split_on sep cs))"

text \<open>\<^verbatim>\<open>sep.join(parts)\<close>.\<close>

fun join :: "string \<Rightarrow> string list \<Rightarrow> string" where
  "join sep [] = []"
| "join sep [p] = p"
| "join sep (p # q # ps) = p @ sep @ join sep (q # ps)"

text \<open>\<^verbatim>\<open>s.replace('\n', '\n#')\<close>.\<close>

definition replace_newline :: "string \<Rightarrow> string" where
  "replace_newline s =
     concat (map (\<lambda>c. if c = CHR 0x0A then [CHR 0x0A, CHR ''#''] else [c]) s)"

text \<open>\<^verbatim>\<open>str(n)\<close> for a non-negative integer: its decimal digits.\<close>

definition digit_char :: "nat \<Rightarrow> char" where
  "digit_char d = ''0123456789'' ! d"

function str_nat :: "nat \<Rightarrow> string" where
  "str_nat n = (if n < 10 then [digit_char n] else str_nat (n div 10) @ [digit_char (n mod 10)])"
  by pat_completeness auto
termination
  by (relation "measure id") auto

declare str_nat.simps [simp del]

text \<open>\<^verbatim>\<open>xs[i]\<close> for a non-negative index, and for any Python integer.\<close>

definition list_get :: "'a list \<Rightarrow> nat \<Rightarrow> error + 'a" where
  "list_get xs i = (if i < length xs then Inr (xs ! i) else Inl IndexError)"


text \<open>
  \<^verbatim>\<open>[f(x) for x in xs]\<close> and \<^verbatim>\<open>tuple(map(f, xs))\<close> where \<open>f\<close> may raise: the first
  exception, in list order, ends the evaluation.
\<close>

fun map_err :: "('a \<Rightarrow> error + 'b) \<Rightarrow> 'a list \<Rightarrow> error + 'b list" where
  "map_err f [] = Inr []"
| "map_err f (x # xs) =
     (case f x of
        Inl e \<Rightarrow> Inl e
      | Inr y \<Rightarrow> (case map_err f xs of Inl e \<Rightarrow> Inl e | Inr ys \<Rightarrow> Inr (y # ys)))"

text \<open>A call returns when it does not raise.\<close>

definition returns :: "error + 'a \<Rightarrow> bool" where
  "returns r = (case r of Inl e \<Rightarrow> False | Inr v \<Rightarrow> True)"

text \<open>
  \<^verbatim>\<open>str(line, 'utf-8')\<close>. A byte string of ASCII bytes decodes to itself. What a byte
  string with a byte above 0x7F decodes to, or whether it raises
  \<^verbatim>\<open>UnicodeDecodeError\<close>, is left to the parameter \<open>dec\<close> (text is a list of 8-bit
  characters here, so code points above 255 have no representation).
\<close>

definition ascii :: "string \<Rightarrow> bool" where
  "ascii s = list_all (\<lambda>c. of_char c < (128::nat)) s"

definition str_utf8 :: "(string \<Rightarrow> error + string) \<Rightarrow> string \<Rightarrow> error + string" where
  "str_utf8 dec b = (if ascii b then Inr b else dec b)"

subsection \<open>PointCloud.save\<close>

text \<open>
  The comment block: \<^verbatim>\<open>out.writelines(["# " + line + "\n" for line in
  str(self.comments).split("\n")])\<close> under \<^verbatim>\<open>if self.comments:\<close>.
\<close>

definition comment_lines :: "string option \<Rightarrow> string list" where
  "comment_lines cmts =
     (case cmts of
        None \<Rightarrow> []
      | Some c \<Rightarrow>
          (if c = [] then []
           else map (\<lambda>line. ''# '' @ line @ [CHR 0x0A]) (split_on (CHR 0x0A) c)))"

text \<open>\<^verbatim>\<open>for c in p.coords: out.write('{:f}'.format(c)); out.write(" ")\<close>\<close>

fun write_coords :: "('a \<Rightarrow> string) \<Rightarrow> 'a list \<Rightarrow> string list \<Rightarrow> string list" where
  "write_coords fmt [] out = out"
| "write_coords fmt (c # cs) out = write_coords fmt cs (out @ [fmt c] @ ['' ''])"

text \<open>The loop over the points; \<open>name\<close> is \<^verbatim>\<open>self.second_param_name\<close>.\<close>

fun write_points ::
  "('a \<Rightarrow> string) \<Rightarrow> string option \<Rightarrow> 'a Point list \<Rightarrow> string list \<Rightarrow> string list" where
  "write_points fmt name [] out = out"
| "write_points fmt name (p # ps) out =
     (let out1 = write_coords fmt (coords p) out;
          out2 = (if name \<noteq> None then out1 @ [fmt (appearance p) @ '' ''] else out1)
      in write_points fmt name ps (out2 @ [ [CHR 0x0A] ]))"

definition PointCloud_save :: "('a \<Rightarrow> string) \<Rightarrow> 'a PointCloud \<Rightarrow> string list \<Rightarrow> string list" where
  "PointCloud_save fmt pc out =
     (let out1 = out @ comment_lines (comments pc);
          out2 = out1 @ [''points'' @ [CHR 0x0A] ];
          out3 = out2 @ [str_nat (dimension pc) @ [CHR 0x0A] ];
          out4 = out3 @ [fmt (max_dist pc) @ [CHR 0x0A] ];
          out5 = (case second_param_name pc of
                    Some name \<Rightarrow> out4 @ [name @ [CHR 0x0A] ]
                  | None \<Rightarrow> out4 @ [''no function'' @ [CHR 0x0A] ]);
          out6 = write_points fmt (second_param_name pc) (points pc) out5
      in out6 @ [ [CHR 0x0A] ])"

subsection \<open>MetricSpace.save\<close>

record 'a MetricSpace =
  comment :: "string option"
  appearance_label :: string
  distance_label :: string
  appearance_values :: "'a list option"
  distance_matrix :: "'a list list"

text \<open>\<^verbatim>\<open>self.distance_matrix[i][j]\<close>\<close>

definition matrix_get :: "'a list list \<Rightarrow> nat \<Rightarrow> nat \<Rightarrow> error + 'a" where
  "matrix_get m i j = (case list_get m i of Inl e \<Rightarrow> Inl e | Inr row \<Rightarrow> list_get row j)"

text \<open>
  \<^verbatim>\<open>[self.distance_matrix[i][j] for i in range(dim) for j in range(dim)]\<close>: all index
  pairs, row by row.
\<close>

definition matrix_entries :: "'a list list \<Rightarrow> nat \<Rightarrow> error + 'a list" where
  "matrix_entries m dimn =
     map_err (\<lambda>(i, j). matrix_get m i j)
       (concat (map (\<lambda>i. map (\<lambda>j. (i, j)) [0..<dimn]) [0..<dimn]))"

text \<open>
  \<^verbatim>\<open>max(*args)\<close> on numbers: with no argument \<^verbatim>\<open>max\<close> raises \<^verbatim>\<open>TypeError\<close> (it expects
  at least one); with a single argument it takes that argument for an iterable, and a
  number is not one (\<^verbatim>\<open>TypeError\<close>); with two or more it returns their maximum.
\<close>

fun max_star :: "'a::linorder list \<Rightarrow> error + 'a" where
  "max_star [] = Inl TypeError"
| "max_star [x] = Inl TypeError"
| "max_star (x # y # ys) = Inr (foldl max x (y # ys))"

text \<open>
  The two nested \<^verbatim>\<open>range\<close> loops that write the distance rows. They run only after
  \<open>matrix_entries\<close> has read every index pair below \<open>dimn\<close>, so the reads are in range.
\<close>

definition write_row :: "('a \<Rightarrow> string) \<Rightarrow> 'a list list \<Rightarrow> nat \<Rightarrow> nat \<Rightarrow> string list" where
  "write_row fmt m dimn row =
     map (\<lambda>col. fmt (m ! row ! col) @ '' '') [row + 1..<dimn] @ [ [CHR 0x0A] ]"

definition write_rows :: "('a \<Rightarrow> string) \<Rightarrow> 'a list list \<Rightarrow> nat \<Rightarrow> string list" where
  "write_rows fmt m dimn = concat (map (write_row fmt m dimn) [0..<dimn])"

text \<open>
  The comment block: \<^verbatim>\<open>out.write('#'); out.write(self.comment.replace('\n', '\n#'));
  out.write('\n')\<close> under \<^verbatim>\<open>if self.comment:\<close>.
\<close>

definition metric_comment :: "string option \<Rightarrow> string list" where
  "metric_comment cmt =
     (case cmt of
        None \<Rightarrow> []
      | Some c \<Rightarrow> (if c = [] then [] else [''#''] @ [replace_newline c] @ [ [CHR 0x0A] ]))"

text \<open>The two branches of \<^verbatim>\<open>if self.appearance_values is not None:\<close>.\<close>

definition metric_function :: "('a \<Rightarrow> string) \<Rightarrow> 'a MetricSpace \<Rightarrow> string list" where
  "metric_function fmt ms =
     (case appearance_values ms of
        Some vs \<Rightarrow>
          [appearance_label ms @ [CHR 0x0A] ]
          @ [join '' '' (map (\<lambda>s. fmt s @ '' '') vs) @ [CHR 0x0A] ]
      | None \<Rightarrow>
          [''no function'' @ [CHR 0x0A] ]
          @ [str_nat (length (distance_matrix ms)) @ [CHR 0x0A] ])"

text \<open>
  \<^verbatim>\<open>MetricSpace.save(out)\<close> returns the stream and the exception that ended the call, if
  any. \<^verbatim>\<open>out.seek(0); out.truncate()\<close> discards what the stream held.
\<close>

definition MetricSpace_save ::
  "('a::linorder \<Rightarrow> string) \<Rightarrow> 'a MetricSpace \<Rightarrow> string list \<Rightarrow> string list \<times> error option" where
  "MetricSpace_save fmt ms out =
     (let out0 = [];
          out1 = out0 @ [''metric'' @ [CHR 0x0A] ];
          out2 = out1 @ metric_comment (comment ms);
          out3 = out2 @ metric_function fmt ms;
          out4 = out3 @ [distance_label ms @ [CHR 0x0A] ];
          dimn = length (distance_matrix ms)
      in case matrix_entries (distance_matrix ms) dimn of
           Inl e \<Rightarrow> (out4, Some e)
         | Inr entries \<Rightarrow>
             (case max_star entries of
                Inl e \<Rightarrow> (out4, Some e)
              | Inr max_d \<Rightarrow>
                  (out4 @ [fmt max_d @ [CHR 0x0A] ] @ write_rows fmt (distance_matrix ms) dimn,
                   None)))"

subsection \<open>Bounds\<close>

text \<open>A corner is a Python sequence (a tuple from the parser, a list from \<^verbatim>\<open>common_bounds\<close>).\<close>

record 'f Bounds =
  lower_left :: "'f list"
  upper_right :: "'f list"

text \<open>
  The coordinates of a corner are Python floats (\<^verbatim>\<open>parse_bounds\<close> builds them with
  \<^verbatim>\<open>float\<close>, and \<^verbatim>\<open>float('nan')\<close> parses): a coordinate is an ordered number or NaN. Every
  comparison with NaN is false.
\<close>

datatype 'a number = Num 'a | NaN

fun number_less :: "'a::linorder number \<Rightarrow> 'a number \<Rightarrow> bool" where
  "number_less (Num x) (Num y) = (x < y)"
| "number_less (Num x) NaN = False"
| "number_less NaN y = False"

definition number_greater :: "'a::linorder number \<Rightarrow> 'a number \<Rightarrow> bool" where
  "number_greater a b = number_less b a"

text \<open>
  The builtins \<^verbatim>\<open>min(a, b)\<close> and \<^verbatim>\<open>max(a, b)\<close> keep the first argument and replace it by
  the second only if the second is less (for \<^verbatim>\<open>max\<close>: greater) than it.
\<close>

definition py_min :: "'a::linorder number \<Rightarrow> 'a number \<Rightarrow> 'a number" where
  "py_min a b = (if number_less b a then b else a)"

definition py_max :: "'a::linorder number \<Rightarrow> 'a number \<Rightarrow> 'a number" where
  "py_max a b = (if number_greater b a then b else a)"

text \<open>
  \<^verbatim>\<open>Bounds.common_bounds(self, other)\<close> reads indices 0 and 1 of the four corners and builds
  a new object; it assigns to no field of \<open>self\<close> or \<open>other\<close>.
\<close>

definition common_bounds ::
  "'a::linorder number Bounds \<Rightarrow> 'a number Bounds \<Rightarrow> error + 'a number Bounds" where
  "common_bounds self other =
     (case map_err (\<lambda>(corner, i). list_get corner i)
             [(lower_left self, 0), (lower_left other, 0),
              (lower_left self, 1), (lower_left other, 1),
              (upper_right self, 0), (upper_right other, 0),
              (upper_right self, 1), (upper_right other, 1)] of
        Inr [sl0, ol0, sl1, ol1, su0, ou0, su1, ou1] \<Rightarrow>
          Inr \<lparr> lower_left = [py_min sl0 ol0, py_min sl1 ol1],
                upper_right = [py_max su0 ou0, py_max su1 ou1] \<rparr>
      | Inr _ \<Rightarrow> Inl IndexError
      | Inl e \<Rightarrow> Inl e)"

subsection \<open>parse_bounds\<close>

text \<open>One iteration of the loop of \<^verbatim>\<open>parse_bounds\<close> on the pair \<open>(low, high)\<close>.\<close>

definition parse_bounds_line ::
  "(string \<Rightarrow> error + string) \<Rightarrow> (string \<Rightarrow> error + 'f) \<Rightarrow> string \<Rightarrow> 'f list \<times> 'f list
     \<Rightarrow> error + 'f list \<times> 'f list" where
  "parse_bounds_line dec pfloat line0 st =
     (case str_utf8 dec line0 of
        Inl e \<Rightarrow> Inl e
      | Inr line1 \<Rightarrow>
          (let line = str_strip line1 in
           case (if startswith line ''low:''
                 then map_err pfloat (split_on (CHR '','') (drop 5 line))
                 else Inr (fst st)) of
             Inl e \<Rightarrow> Inl e
           | Inr low \<Rightarrow>
               (case (if startswith line ''high:''
                      then map_err pfloat (split_on (CHR '','') (drop 6 line))
                      else Inr (snd st)) of
                  Inl e \<Rightarrow> Inl e
                | Inr high \<Rightarrow> Inr (low, high))))"

fun parse_bounds_loop ::
  "(string \<Rightarrow> error + string) \<Rightarrow> (string \<Rightarrow> error + 'f) \<Rightarrow> string list \<Rightarrow> 'f list \<times> 'f list
     \<Rightarrow> error + 'f list \<times> 'f list" where
  "parse_bounds_loop dec pfloat [] st = Inr st"
| "parse_bounds_loop dec pfloat (line # lines) st =
     (case parse_bounds_line dec pfloat line st of
        Inl e \<Rightarrow> Inl e
      | Inr st' \<Rightarrow> parse_bounds_loop dec pfloat lines st')"

definition parse_bounds ::
  "(string \<Rightarrow> error + string) \<Rightarrow> (string \<Rightarrow> error + 'f::zero) \<Rightarrow> string list
     \<Rightarrow> error + 'f Bounds" where
  "parse_bounds dec pfloat lines =
     (case parse_bounds_loop dec pfloat lines ([0, 0], [0, 0]) of
        Inl e \<Rightarrow> Inl e
      | Inr (low, high) \<Rightarrow> Inr \<lparr> lower_left = low, upper_right = high \<rparr>)"

subsection \<open>Dimensions, MultiBetti and _parse_betti\<close>









subsection \<open>Bar, Barcode and _parse_slices\<close>

text \<open>
  Modelled from the spec: the classes \<^verbatim>\<open>barcode.Bar\<close> and \<^verbatim>\<open>barcode.Barcode\<close> of the module
  \<^verbatim>\<open>barcode\<close>, which \<^verbatim>\<open>rivet.py\<close> imports. A bar is a birth, a death and a multiplicity;
  a barcode is the ordered collection of the bars of one slice.
\<close>

record 'f Bar =
  birth :: 'f
  death :: 'f
  multiplicity :: int

record 'f Barcode =
  bars :: "'f Bar list"

text \<open>
  \<^verbatim>\<open>birth, death, mult = part.split(b' ')\<close> followed by
  \<^verbatim>\<open>barcode.Bar(float(birth), float(death), int(mult[1:]))\<close>. Unpacking any number of
  pieces other than three raises \<^verbatim>\<open>ValueError\<close>.
\<close>

definition parse_bar ::
  "(string \<Rightarrow> error + 'f) \<Rightarrow> (string \<Rightarrow> error + int) \<Rightarrow> string \<Rightarrow> error + 'f Bar" where
  "parse_bar pfloat pint part =
     (case split_on (CHR '' '') part of
        [b, d, mult] \<Rightarrow>
          (case pfloat b of
             Inl e \<Rightarrow> Inl e
           | Inr bv \<Rightarrow>
               (case pfloat d of
                  Inl e \<Rightarrow> Inl e
                | Inr dv \<Rightarrow>
                    (case pint (drop 1 mult) of
                       Inl e \<Rightarrow> Inl e
                     | Inr mv \<Rightarrow> Inr \<lparr> birth = bv, death = dv, multiplicity = mv \<rparr>)))
      | _ \<Rightarrow> Inl ValueError)"

text \<open>The loop \<^verbatim>\<open>for part in body.split(b',')\<close>; \<open>bs\<close> is the list \<^verbatim>\<open>bars\<close> so far.\<close>

fun parse_bars ::
  "(string \<Rightarrow> error + 'f) \<Rightarrow> (string \<Rightarrow> error + int) \<Rightarrow> string list \<Rightarrow> 'f Bar list
     \<Rightarrow> error + 'f Bar list" where
  "parse_bars pfloat pint [] bs = Inr bs"
| "parse_bars pfloat pint (part0 # parts) bs =
     (let part = bytes_strip part0 in
      if part = [] then parse_bars pfloat pint parts bs
      else
        (case parse_bar pfloat pint part of
           Inl e \<Rightarrow> Inl e
         | Inr bar \<Rightarrow> parse_bars pfloat pint parts (bs @ [bar])))"

text \<open>
  The loop body of \<^verbatim>\<open>_parse_slices\<close> for a stripped, non-empty line. Both unpackings
  need exactly two pieces. The key \<^verbatim>\<open>(float(angle), float(offset))\<close> is computed after
  the bars.
\<close>

definition parse_slice ::
  "(string \<Rightarrow> error + 'f) \<Rightarrow> (string \<Rightarrow> error + int) \<Rightarrow> string
     \<Rightarrow> error + ('f \<times> 'f) \<times> 'f Barcode" where
  "parse_slice pfloat pint line =
     (case split_on (CHR '':'') line of
        [header, body] \<Rightarrow>
          (case split_on (CHR '' '') header of
             [angle, offset] \<Rightarrow>
               (case parse_bars pfloat pint (split_on (CHR '','') body) [] of
                  Inl e \<Rightarrow> Inl e
                | Inr bs \<Rightarrow>
                    (case pfloat angle of
                       Inl e \<Rightarrow> Inl e
                     | Inr a \<Rightarrow>
                         (case pfloat offset of
                            Inl e \<Rightarrow> Inl e
                          | Inr off \<Rightarrow> Inr ((a, off), \<lparr> bars = bs \<rparr>))))
           | _ \<Rightarrow> Inl ValueError)
      | _ \<Rightarrow> Inl ValueError)"

fun parse_slices_loop ::
  "(string \<Rightarrow> error + 'f) \<Rightarrow> (string \<Rightarrow> error + int) \<Rightarrow> string list
     \<Rightarrow> (('f \<times> 'f) \<times> 'f Barcode) list \<Rightarrow> error + (('f \<times> 'f) \<times> 'f Barcode) list" where
  "parse_slices_loop pfloat pint [] slices = Inr slices"
| "parse_slices_loop pfloat pint (line0 # text) slices =
     (let line = bytes_strip line0 in
      if line = [] then parse_slices_loop pfloat pint text slices
      else
        (case parse_slice pfloat pint line of
           Inl e \<Rightarrow> Inl e
         | Inr sl \<Rightarrow> parse_slices_loop pfloat pint text (slices @ [sl])))"

definition parse_slices ::
  "(string \<Rightarrow> error + 'f) \<Rightarrow> (string \<Rightarrow> error + int) \<Rightarrow> string list
     \<Rightarrow> error + (('f \<times> 'f) \<times> 'f Barcode) list" where
  "parse_slices pfloat pint text = parse_slices_loop pfloat pint text []"

subsection \<open>The builtins on plain decimal literals\<close>

text \<open>
  The parsers above take the builtins \<^verbatim>\<open>float\<close>, \<^verbatim>\<open>int\<close> and \<^verbatim>\<open>Fraction\<close> as
  parameters. To run them on concrete text, the following functions give the builtins'
  values on plain literals: optional surrounding whitespace, an optional sign, decimal
  digits, and a fractional part (\<^verbatim>\<open>float\<close>) or a denominator (\<^verbatim>\<open>Fraction\<close>). Everything
  else is rejected here with \<^verbatim>\<open>ValueError\<close>, although the builtins accept more (exponents,
  \<^verbatim>\<open>inf\<close>, underscores). A float is represented by the rational it denotes.
\<close>

definition is_digit :: "char \<Rightarrow> bool" where
  "is_digit c = (48 \<le> (of_char c :: nat) \<and> (of_char c :: nat) \<le> 57)"

definition digits_value :: "string \<Rightarrow> nat" where
  "digits_value ds = foldl (\<lambda>a c. 10 * a + (of_char c - 48)) 0 ds"

definition all_digits :: "string \<Rightarrow> bool" where
  "all_digits ds = list_all is_digit ds"

text \<open>Splits a sign off: the factor and the rest.\<close>

fun sign_of :: "string \<Rightarrow> int \<times> string" where
  "sign_of [] = (1, [])"
| "sign_of (c # cs) =
     (if c = CHR ''-'' then (- 1, cs) else if c = CHR ''+'' then (1, cs) else (1, c # cs))"

definition literal_int :: "string \<Rightarrow> error + int" where
  "literal_int s =
     (case sign_of (bytes_strip s) of
        (sg, ds) \<Rightarrow>
          if ds \<noteq> [] \<and> all_digits ds then Inr (sg * int (digits_value ds)) else Inl ValueError)"

definition literal_float :: "string \<Rightarrow> error + rat" where
  "literal_float s =
     (case sign_of (bytes_strip s) of
        (sg, body) \<Rightarrow>
          (case split_on (CHR ''.'') body of
             [ds] \<Rightarrow>
               if ds \<noteq> [] \<and> all_digits ds then Inr (of_int (sg * int (digits_value ds)))
               else Inl ValueError
           | [ds, fs] \<Rightarrow>
               if (ds \<noteq> [] \<or> fs \<noteq> []) \<and> all_digits ds \<and> all_digits fs
               then Inr (of_int sg *
                         (of_nat (digits_value ds) + of_nat (digits_value fs) / 10 ^ length fs))
               else Inl ValueError
           | _ \<Rightarrow> Inl ValueError))"


text \<open>A decoder for the parameter \<open>dec\<close> that rejects every non-ASCII byte string.\<close>

definition ascii_only :: "string \<Rightarrow> error + string" where
  "ascii_only b = Inl UnicodeDecodeError"

text \<open>
  A formatter for the parameter \<open>fmt\<close>: \<^verbatim>\<open>'{:f}'.format(k)\<close> for an integer \<open>k\<close>, which is
  the sign, the decimal digits and six zero decimals.
\<close>

definition format_f :: "int \<Rightarrow> string" where
  "format_f k =
     (if k < 0 then ''-'' @ str_nat (nat (- k)) else str_nat (nat k)) @ ''.000000''"

subsection \<open>The reading of the specification\<close>

text \<open>All coordinates of all points, in order.\<close>

definition all_coords :: "'a Point list \<Rightarrow> 'a list" where
  "all_coords ps = concat (map coords ps)"

text \<open>
  The span as the specification words it: the maximum coordinate minus the minimum
  coordinate, where only the lower bound starts at 0.
\<close>

definition span_lower_clamped :: "'a::linordered_idom Point list \<Rightarrow> 'a" where
  "span_lower_clamped ps = Max (set (all_coords ps)) - min 0 (Min (set (all_coords ps)))"

text \<open>
  The span with both running bounds started at 0: the largest of 0 and the coordinates
  minus the smallest of 0 and the coordinates.
\<close>

definition span_both_clamped :: "'a::linordered_idom Point list \<Rightarrow> 'a" where
  "span_both_clamped ps =
     Max (insert 0 (set (all_coords ps))) - Min (insert 0 (set (all_coords ps)))"

text \<open>Splitting once, at the first occurrence of the separator.\<close>

definition split_first :: "char \<Rightarrow> string \<Rightarrow> string \<times> string" where
  "split_first sep s = (takeWhile (\<lambda>c. c \<noteq> sep) s, drop 1 (dropWhile (\<lambda>c. c \<noteq> sep) s))"

text \<open>
  The slice parser as the specification words it, for a stripped non-blank line: split
  once at the first colon into header and body, split the header at the first space into
  angle and offset, then read the bars of the body. A missing delimiter is a parse error.
\<close>

definition parse_slice_split_once ::
  "(string \<Rightarrow> error + 'f) \<Rightarrow> (string \<Rightarrow> error + int) \<Rightarrow> string
     \<Rightarrow> error + ('f \<times> 'f) \<times> 'f Barcode" where
  "parse_slice_split_once pfloat pint line =
     (if CHR '':'' \<notin> set line then Inl ValueError
      else
        (case split_first (CHR '':'') line of
           (header, body) \<Rightarrow>
             if CHR '' '' \<notin> set header then Inl ValueError
             else
               (case split_first (CHR '' '') header of
                  (angle, offset) \<Rightarrow>
                    (case parse_bars pfloat pint (split_on (CHR '','') body) [] of
                       Inl e \<Rightarrow> Inl e
                     | Inr bs \<Rightarrow>
                         (case pfloat angle of
                            Inl e \<Rightarrow> Inl e
                          | Inr a \<Rightarrow>
                              (case pfloat offset of
                                 Inl e \<Rightarrow> Inl e
                               | Inr off \<Rightarrow> Inr ((a, off), \<lparr> bars = bs \<rparr>)))))))"

text \<open>
  The corner the specification describes for a prefix: the floats after the first \<open>k\<close>
  characters of the last line with that prefix, or \<open>(0, 0)\<close> when no line has it.
\<close>

definition corner_of ::
  "(string \<Rightarrow> error + 'f::zero) \<Rightarrow> string \<Rightarrow> nat \<Rightarrow> string list \<Rightarrow> error + 'f list" where
  "corner_of pfloat prefix k lines =
     (case filter (\<lambda>l. startswith l prefix) lines of
        [] \<Rightarrow> Inr [0, 0]
      | l # ls \<Rightarrow> map_err pfloat (split_on (CHR '','') (drop k (last (l # ls)))))"

text \<open>What \<^verbatim>\<open>save\<close> writes for one point: the coordinates, then the appearance if asked.\<close>

definition point_line :: "('a \<Rightarrow> string) \<Rightarrow> bool \<Rightarrow> 'a Point \<Rightarrow> string list" where
  "point_line fmt with_appearance p =
     concat (map (\<lambda>c. [fmt c, '' '']) (coords p))
     @ (if with_appearance then [fmt (appearance p) @ '' ''] else [])
     @ [ [CHR 0x0A] ]"

section \<open>Properties\<close>

subsection \<open>The computed max_dist\<close>

lemma scan_coords_fold:
  "scan_coords cs (lo, hi) = (fold min cs lo, fold max cs hi)"
proof (induction cs arbitrary: lo hi)
  case Nil
  show ?case by simp
next
  case (Cons c cs)
  have lo: "(if c < lo then c else lo) = min c lo" by (auto simp: min_def)
  have hi: "(if hi < c then c else hi) = max c hi" by (auto simp: max_def)
  show ?case by (simp add: Cons.IH lo hi Let_def)
qed

lemma scan_points_fold:
  "scan_points ps (lo, hi) = (fold min (all_coords ps) lo, fold max (all_coords ps) hi)"
proof (induction ps arbitrary: lo hi)
  case Nil
  show ?case by (simp add: all_coords_def)
next
  case (Cons p ps)
  show ?case by (simp add: scan_coords_fold Cons.IH all_coords_def)
qed

lemma fold_min_Min: "fold min xs (a::'a::linorder) = Min (insert a (set xs))"
  using Min.set_eq_fold [of a xs] by simp

lemma fold_max_Max: "fold max xs (a::'a::linorder) = Max (insert a (set xs))"
  using Max.set_eq_fold [of a xs] by simp

lemma calc_max_dist_span: "calc_max_dist ps = span_both_clamped ps"
proof -
  let ?S = "insert 0 (set (all_coords ps))"
  have "Min ?S \<le> 0" by (rule Min_le) simp_all
  moreover have "0 \<le> Max ?S" by (rule Max_ge) simp_all
  ultimately have "0 \<le> Max ?S - Min ?S" by linarith
  then have "\<bar>Max ?S - Min ?S\<bar> = Max ?S - Min ?S" by (rule abs_of_nonneg)
  then show ?thesis
    by (simp add: calc_max_dist_def scan_points_fold fold_min_Min fold_max_Max
        span_both_clamped_def)
qed

lemma span_both_lower:
  assumes "\<exists>c\<in>set (all_coords ps). 0 \<le> c"
  shows "span_both_clamped ps = span_lower_clamped ps"
proof -
  let ?C = "set (all_coords ps)"
  from assms have ne: "?C \<noteq> {}" by auto
  have fin: "finite ?C" by simp
  from assms obtain c where c: "c \<in> ?C" "0 \<le> c" by auto
  have "c \<le> Max ?C" using c(1) fin by (rule_tac Max_ge)
  with c(2) have "0 \<le> Max ?C" by (rule order_trans)
  then have "Max (insert 0 ?C) = Max ?C" using fin ne by (simp add: max_def)
  moreover have "Min (insert 0 ?C) = min 0 (Min ?C)" using fin ne by simp
  ultimately show ?thesis by (simp add: span_both_clamped_def span_lower_clamped_def)
qed

lemma PointCloud_init_Inr:
  "PointCloud_init pts nm cm md = Inr pc \<Longrightarrow>
     pts \<noteq> [] \<and> points pc = pts \<and> comments pc = cm \<and>
     dimension pc = Point_dimension (hd pts) \<and>
     second_param_name pc = (case nm of Some s \<Rightarrow> (if s \<noteq> [] then Some s else None) | None \<Rightarrow> None) \<and>
     max_dist pc = (case md of Some m \<Rightarrow> (if m \<noteq> 0 then m else calc_max_dist pts) | None \<Rightarrow> calc_max_dist pts)"
  by (auto simp: PointCloud_init_def split: list.splits option.splits)

text \<open>
  Claim C1 (as amended). A PointCloud constructed without a supplied \<^verbatim>\<open>max_dist\<close> stores
  the span of all coordinates of all points in which both running bounds start at 0: the
  largest of 0 and the coordinates minus the smallest of 0 and the coordinates. When some
  coordinate is non-negative this is the maximum coordinate minus the minimum coordinate
  with only the lower bound started at 0.
\<close>

theorem max_dist_default_span:
  assumes "PointCloud_init pts nm cm None = Inr pc"
  shows "max_dist pc = span_both_clamped pts \<and>
         ((\<exists>c\<in>set (all_coords pts). 0 \<le> c) \<longrightarrow> max_dist pc = span_lower_clamped pts)"
  using PointCloud_init_Inr [OF assms] by (simp add: calc_max_dist_span span_both_lower)

text \<open>The theorem at a cloud of two points in the plane.\<close>

theorem max_dist_default_span_witness:
  "PointCloud_init [\<lparr>appearance = 0, coords = [2::int, 5]\<rparr>, \<lparr>appearance = 0, coords = [- 1, 3]\<rparr>] None None None
     = Inr \<lparr>second_param_name = None,
            points = [\<lparr>appearance = 0, coords = [2, 5]\<rparr>, \<lparr>appearance = 0, coords = [- 1, 3]\<rparr>],
            comments = None, dimension = 2, max_dist = 6\<rparr>
   \<and> span_both_clamped [\<lparr>appearance = 0, coords = [2::int, 5]\<rparr>, \<lparr>appearance = 0, coords = [- 1, 3]\<rparr>] = 6
   \<and> span_lower_clamped [\<lparr>appearance = 0, coords = [2::int, 5]\<rparr>, \<lparr>appearance = 0, coords = [- 1, 3]\<rparr>] = 6"
proof -
  let ?pts = "[\<lparr>appearance = 0, coords = [2::int, 5]\<rparr>, \<lparr>appearance = 0, coords = [- 1, 3]\<rparr>]"
  let ?pc = "\<lparr>second_param_name = None, points = ?pts, comments = None, dimension = 2, max_dist = (6::int)\<rparr>"
  have i: "PointCloud_init ?pts None None None = Inr ?pc"
    by (simp add: PointCloud_init_def Point_dimension_def calc_max_dist_def)
  have e: "\<exists>c\<in>set (all_coords ?pts). 0 \<le> c" by (simp add: all_coords_def)
  from max_dist_default_span [OF i] e show ?thesis using i by simp
qed

text \<open>
  With only negative coordinates the upper bound stays at its start value 0: for the
  coordinates \<open>-3\<close> and \<open>-1\<close> the stored value is 3, while the maximum coordinate minus
  the lower bound is 2.
\<close>

theorem max_dist_lower_clamp_counterexample:
  "PointCloud_init [\<lparr>appearance = 0, coords = [- 3::int]\<rparr>, \<lparr>appearance = 0, coords = [- 1]\<rparr>] None None None
     = Inr \<lparr>second_param_name = None,
            points = [\<lparr>appearance = 0, coords = [- 3]\<rparr>, \<lparr>appearance = 0, coords = [- 1]\<rparr>],
            comments = None, dimension = 1, max_dist = 3\<rparr>
   \<and> span_lower_clamped [\<lparr>appearance = 0, coords = [- 3::int]\<rparr>, \<lparr>appearance = 0, coords = [- 1]\<rparr>] = 2"
  by (simp add: PointCloud_init_def Point_dimension_def calc_max_dist_def
      span_lower_clamped_def all_coords_def)

subsection \<open>Validation of the dimensions\<close>

lemma check_dimensions_None:
  "(check_dimensions d i ps = None) = (\<forall>p\<in>set ps. Point_dimension p = d)"
  by (induction ps arbitrary: i) auto

lemma check_dimensions_first:
  assumes "k < length ps" "Point_dimension (ps ! k) \<noteq> d"
    and "\<forall>j<k. Point_dimension (ps ! j) = d"
  shows "check_dimensions d i ps = Some (DimensionError d (i + k) (Point_dimension (ps ! k)))"
  using assms
proof (induction ps arbitrary: i k)
  case Nil
  then show ?case by simp
next
  case (Cons p ps)
  show ?case
  proof (cases k)
    case 0
    with Cons.prems show ?thesis by simp
  next
    case (Suc k')
    from Cons.prems(3) Suc have p: "Point_dimension p = d" by auto
    have a: "k' < length ps" using Cons.prems(1) Suc by simp
    have b: "Point_dimension (ps ! k') \<noteq> d" using Cons.prems(2) Suc by simp
    have c: "\<forall>j<k'. Point_dimension (ps ! j) = d"
    proof (intro allI impI)
      fix j assume "j < k'"
      then have "Suc j < k" using Suc by simp
      with Cons.prems(3) have "Point_dimension ((p # ps) ! Suc j) = d" by blast
      then show "Point_dimension (ps ! j) = d" by simp
    qed
    from Cons.IH [OF a b c, of "Suc i"] p Suc show ?thesis by simp
  qed
qed

lemma first_mismatch_exists:
  assumes "\<exists>p\<in>set ps. Point_dimension p \<noteq> d"
  shows "\<exists>k<length ps. Point_dimension (ps ! k) \<noteq> d \<and> (\<forall>j<k. Point_dimension (ps ! j) = d)"
proof -
  let ?P = "\<lambda>k. k < length ps \<and> Point_dimension (ps ! k) \<noteq> d"
  from assms obtain n where n: "?P n" by (auto simp: in_set_conv_nth)
  define k where "k = (LEAST k. ?P k)"
  have k: "?P k" unfolding k_def using n by (rule LeastI)
  have "\<forall>j<k. Point_dimension (ps ! j) = d"
  proof (intro allI impI)
    fix j assume j: "j < k"
    then have "\<not> ?P j" unfolding k_def by (rule not_less_Least)
    moreover have "j < length ps" using j k by simp
    ultimately show "Point_dimension (ps ! j) = d" by simp
  qed
  with k show ?thesis by blast
qed

lemma PointCloud_init_mismatch:
  assumes "k < length pts" "Point_dimension (pts ! k) \<noteq> Point_dimension (hd pts)"
    and "\<forall>j<k. Point_dimension (pts ! j) = Point_dimension (hd pts)"
  shows "PointCloud_init pts nm cm md =
           Inl (DimensionError (Point_dimension (hd pts)) k (Point_dimension (pts ! k)))"
proof -
  from assms(1) obtain p0 ps where pts: "pts = p0 # ps" by (cases pts) auto
  from check_dimensions_first [OF assms, of 0]
  show ?thesis by (simp add: PointCloud_init_def pts)
qed

lemma PointCloud_init_ok:
  assumes "pts \<noteq> []" "\<forall>p\<in>set pts. Point_dimension p = Point_dimension (hd pts)"
  shows "\<exists>pc. PointCloud_init pts nm cm md = Inr pc \<and> points pc = pts \<and>
              dimension pc = Point_dimension (hd pts)"
proof -
  from assms(1) obtain p0 ps where pts: "pts = p0 # ps" by (cases pts) auto
  from assms(2) have "check_dimensions (Point_dimension p0) 0 pts = None"
    by (simp only: check_dimensions_None pts list.sel)
  then show ?thesis by (simp add: PointCloud_init_def pts)
qed

lemma PointCloud_init_empty: "PointCloud_init [] nm cm md = Inl IndexError"
  by (simp add: PointCloud_init_def)

text \<open>
  Claim C5 (as amended). If some point of the sequence has a dimension different from
  that of the first point, \<^verbatim>\<open>PointCloud.__init__\<close> raises the validation error, and the
  position the error names is the first (lowest-index) mismatching one. If the sequence is
  not empty and all its points have the dimension of the first, construction succeeds.
  The constructor has no stream among its arguments and results: writing is done by
  \<^verbatim>\<open>save\<close> only, on a constructed cloud, so the error precedes any output.
\<close>

theorem PointCloud_init_dimension_check:
  "((\<exists>p\<in>set pts. Point_dimension p \<noteq> Point_dimension (hd pts)) \<longrightarrow>
      (\<exists>k<length pts.
          Point_dimension (pts ! k) \<noteq> Point_dimension (hd pts) \<and>
          (\<forall>j<k. Point_dimension (pts ! j) = Point_dimension (hd pts)) \<and>
          PointCloud_init pts nm cm md =
            Inl (DimensionError (Point_dimension (hd pts)) k (Point_dimension (pts ! k)))))
   \<and> (pts \<noteq> [] \<and> (\<forall>p\<in>set pts. Point_dimension p = Point_dimension (hd pts)) \<longrightarrow>
      (\<exists>pc. PointCloud_init pts nm cm md = Inr pc \<and> points pc = pts \<and>
            dimension pc = Point_dimension (hd pts)))"
proof (intro conjI impI)
  assume "\<exists>p\<in>set pts. Point_dimension p \<noteq> Point_dimension (hd pts)"
  from first_mismatch_exists [OF this] obtain k where
    k: "k < length pts" "Point_dimension (pts ! k) \<noteq> Point_dimension (hd pts)"
       "\<forall>j<k. Point_dimension (pts ! j) = Point_dimension (hd pts)" by blast
  from PointCloud_init_mismatch [OF k] k
  show "\<exists>k<length pts.
          Point_dimension (pts ! k) \<noteq> Point_dimension (hd pts) \<and>
          (\<forall>j<k. Point_dimension (pts ! j) = Point_dimension (hd pts)) \<and>
          PointCloud_init pts nm cm md =
            Inl (DimensionError (Point_dimension (hd pts)) k (Point_dimension (pts ! k)))"
    by blast
next
  assume "pts \<noteq> [] \<and> (\<forall>p\<in>set pts. Point_dimension p = Point_dimension (hd pts))"
  then show "\<exists>pc. PointCloud_init pts nm cm md = Inr pc \<and> points pc = pts \<and>
            dimension pc = Point_dimension (hd pts)"
    using PointCloud_init_ok by blast
qed


text \<open>
  The theorem at a sequence whose third point (position 2) is the first of two mismatching
  ones, and at a sequence of two points in the plane.
\<close>

theorem PointCloud_init_dimension_check_witness:
  "PointCloud_init [\<lparr>appearance = 0, coords = [1::int, 2]\<rparr>, \<lparr>appearance = 0, coords = [3, 4]\<rparr>,
                    \<lparr>appearance = 0, coords = [5]\<rparr>, \<lparr>appearance = 0, coords = []\<rparr>]
       None None None = Inl (DimensionError 2 2 1)
   \<and> (\<exists>pc. PointCloud_init [\<lparr>appearance = 0, coords = [1::int, 2]\<rparr>, \<lparr>appearance = 0, coords = [3, 4]\<rparr>]
              None None None = Inr pc
         \<and> points pc = [\<lparr>appearance = 0, coords = [1, 2]\<rparr>, \<lparr>appearance = 0, coords = [3, 4]\<rparr>]
         \<and> dimension pc = 2)"
proof -
  let ?bad = "[\<lparr>appearance = 0, coords = [1::int, 2]\<rparr>, \<lparr>appearance = 0, coords = [3, 4]\<rparr>,
               \<lparr>appearance = 0, coords = [5]\<rparr>, \<lparr>appearance = 0, coords = []\<rparr>]"
  let ?good = "[\<lparr>appearance = 0, coords = [1::int, 2]\<rparr>, \<lparr>appearance = 0, coords = [3, 4]\<rparr>]"
  have h1: "\<exists>p\<in>set ?bad. Point_dimension p \<noteq> Point_dimension (hd ?bad)"
    by (simp add: Point_dimension_def)
  have h2: "?good \<noteq> [] \<and> (\<forall>p\<in>set ?good. Point_dimension p = Point_dimension (hd ?good))"
    by (simp add: Point_dimension_def)
  from PointCloud_init_dimension_check [of ?bad None None None] h1
  obtain k where k: "k < length ?bad" "Point_dimension (?bad ! k) \<noteq> Point_dimension (hd ?bad)"
     "\<forall>j<k. Point_dimension (?bad ! j) = Point_dimension (hd ?bad)"
     "PointCloud_init ?bad None None None =
        Inl (DimensionError (Point_dimension (hd ?bad)) k (Point_dimension (?bad ! k)))"
    by blast
  have "k = 2"
  proof (rule ccontr)
    assume "k \<noteq> 2"
    with k(1) have "k = 0 \<or> k = 1 \<or> k = 3" by auto
    then show False
    proof (elim disjE)
      assume "k = 0" with k(2) show False by (simp add: Point_dimension_def)
    next
      assume "k = 1" with k(2) show False by (simp add: Point_dimension_def)
    next
      assume "k = 3"
      then have "2 < k" by simp
      with k(3) have "Point_dimension (?bad ! 2) = Point_dimension (hd ?bad)" by blast
      then show False by (simp add: Point_dimension_def)
    qed
  qed
  with k(4) have a: "PointCloud_init ?bad None None None = Inl (DimensionError 2 2 1)"
    by (simp add: Point_dimension_def)
  from PointCloud_init_dimension_check [of ?good None None None] h2
  have b: "\<exists>pc. PointCloud_init ?good None None None = Inr pc \<and> points pc = ?good \<and>
            dimension pc = 2"
    by (simp add: Point_dimension_def numeral_2_eq_2)
  from a b show ?thesis by blast
qed

text \<open>
  In the empty sequence all points share one dimension, and construction fails: reading
  \<^verbatim>\<open>points[0]\<close> raises \<^verbatim>\<open>IndexError\<close>.
\<close>

theorem PointCloud_init_empty_counterexample:
  "PointCloud_init ([] :: int Point list) None None None = Inl IndexError"
  by (simp add: PointCloud_init_def)

subsection \<open>A supplied max_dist of zero\<close>

text \<open>
  Claim C8. A supplied \<^verbatim>\<open>max_dist\<close> of 0 is ignored: construction gives what it gives
  when \<^verbatim>\<open>max_dist\<close> is omitted, and the stored value is the computed coordinate span. A
  supplied non-zero value is stored as given. A caller cannot force the value 0: whenever
  the stored \<^verbatim>\<open>max_dist\<close> is 0, the computed span is 0.
\<close>

theorem max_dist_zero_ignored:
  "PointCloud_init pts nm cm (Some 0) = PointCloud_init pts nm cm None
   \<and> (PointCloud_init pts nm cm (Some 0) = Inr pc \<longrightarrow> max_dist pc = calc_max_dist pts)
   \<and> (m \<noteq> 0 \<and> PointCloud_init pts nm cm (Some m) = Inr pc' \<longrightarrow> max_dist pc' = m)
   \<and> (PointCloud_init pts nm cm md = Inr pc'' \<and> max_dist pc'' = 0 \<longrightarrow> calc_max_dist pts = 0)"
proof (intro conjI impI)
  show "PointCloud_init pts nm cm (Some 0) = PointCloud_init pts nm cm None"
    by (simp add: PointCloud_init_def split: list.splits option.splits)
next
  assume "PointCloud_init pts nm cm (Some 0) = Inr pc"
  from PointCloud_init_Inr [OF this] show "max_dist pc = calc_max_dist pts" by simp
next
  assume "m \<noteq> 0 \<and> PointCloud_init pts nm cm (Some m) = Inr pc'"
  then have "m \<noteq> 0" and i: "PointCloud_init pts nm cm (Some m) = Inr pc'" by simp_all
  from PointCloud_init_Inr [OF i] \<open>m \<noteq> 0\<close> show "max_dist pc' = m" by simp
next
  assume "PointCloud_init pts nm cm md = Inr pc'' \<and> max_dist pc'' = 0"
  then have i: "PointCloud_init pts nm cm md = Inr pc''" and z: "max_dist pc'' = 0" by simp_all
  from PointCloud_init_Inr [OF i] z show "calc_max_dist pts = 0"
    by (cases md) (auto split: if_splits)
qed


text \<open>
  The theorem at a cloud with span 6, for the supplied values 0 and 9, and at the cloud of
  the origin alone, where the stored 0 is the computed span.
\<close>

theorem max_dist_zero_ignored_witness:
  "PointCloud_init [\<lparr>appearance = 0, coords = [1::int, 2]\<rparr>, \<lparr>appearance = 0, coords = [- 1, 5]\<rparr>]
       None None (Some 0)
     = Inr \<lparr>second_param_name = None,
            points = [\<lparr>appearance = 0, coords = [1, 2]\<rparr>, \<lparr>appearance = 0, coords = [- 1, 5]\<rparr>],
            comments = None, dimension = 2, max_dist = 6\<rparr>
   \<and> calc_max_dist [\<lparr>appearance = 0, coords = [1::int, 2]\<rparr>, \<lparr>appearance = 0, coords = [- 1, 5]\<rparr>] = 6
   \<and> PointCloud_init [\<lparr>appearance = 0, coords = [1::int, 2]\<rparr>, \<lparr>appearance = 0, coords = [- 1, 5]\<rparr>]
       None None (Some 9)
     = Inr \<lparr>second_param_name = None,
            points = [\<lparr>appearance = 0, coords = [1, 2]\<rparr>, \<lparr>appearance = 0, coords = [- 1, 5]\<rparr>],
            comments = None, dimension = 2, max_dist = 9\<rparr>
   \<and> PointCloud_init [\<lparr>appearance = 0, coords = [0::int, 0]\<rparr>] None None (Some 0)
     = Inr \<lparr>second_param_name = None, points = [\<lparr>appearance = 0, coords = [0, 0]\<rparr>],
            comments = None, dimension = 2, max_dist = 0\<rparr>
   \<and> calc_max_dist [\<lparr>appearance = 0, coords = [0::int, 0]\<rparr>] = 0"
proof -
  let ?pts = "[\<lparr>appearance = 0, coords = [1::int, 2]\<rparr>, \<lparr>appearance = 0, coords = [- 1, 5]\<rparr>]"
  let ?pc0 = "\<lparr>second_param_name = None, points = ?pts, comments = None, dimension = 2,
               max_dist = (6::int)\<rparr>"
  let ?pc9 = "\<lparr>second_param_name = None, points = ?pts, comments = None, dimension = 2,
               max_dist = (9::int)\<rparr>"
  let ?org = "[\<lparr>appearance = 0, coords = [0::int, 0]\<rparr>]"
  let ?pcz = "\<lparr>second_param_name = None, points = ?org, comments = None, dimension = 2,
               max_dist = (0::int)\<rparr>"
  have a: "PointCloud_init ?pts None None (Some 0) = Inr ?pc0"
    by (simp add: PointCloud_init_def Point_dimension_def calc_max_dist_def)
  have b: "(9::int) \<noteq> 0 \<and> PointCloud_init ?pts None None (Some 9) = Inr ?pc9"
    by (simp add: PointCloud_init_def Point_dimension_def)
  have c: "PointCloud_init ?org None None (Some 0) = Inr ?pcz \<and> max_dist ?pcz = 0"
    by (simp add: PointCloud_init_def Point_dimension_def calc_max_dist_def)
  from max_dist_zero_ignored [of ?pts None None ?pc0 9 ?pc9 "Some 0" ?pc0] a b
  have "calc_max_dist ?pts = 6" by simp
  moreover from max_dist_zero_ignored [of ?org None None ?pcz 0 ?pcz "Some 0" ?pcz] c
  have "calc_max_dist ?org = 0" by simp
  ultimately show ?thesis using a b c by simp
qed

subsection \<open>What PointCloud.save writes\<close>

lemma write_coords_eq:
  "write_coords fmt cs out = out @ concat (map (\<lambda>c. [fmt c, '' '']) cs)"
  by (induction cs arbitrary: out) simp_all

lemma write_points_eq:
  "write_points fmt name ps out = out @ concat (map (point_line fmt (name \<noteq> None)) ps)"
  by (induction ps arbitrary: out) (simp_all add: write_coords_eq point_line_def Let_def)

lemma PointCloud_save_eq:
  "PointCloud_save fmt pc out =
     out @ comment_lines (comments pc)
       @ [''points'' @ [CHR 0x0A], str_nat (dimension pc) @ [CHR 0x0A],
          fmt (max_dist pc) @ [CHR 0x0A],
          (case second_param_name pc of Some name \<Rightarrow> name | None \<Rightarrow> ''no function'') @ [CHR 0x0A] ]
       @ concat (map (point_line fmt (second_param_name pc \<noteq> None)) (points pc))
       @ [ [CHR 0x0A] ]"
  by (simp add: PointCloud_save_def write_points_eq Let_def split: option.splits)

text \<open>
  Claim C9. Constructing a PointCloud with the empty string for \<^verbatim>\<open>second_param_name\<close>
  gives what omitting the argument gives: the field is \<open>None\<close>, \<^verbatim>\<open>save\<close> writes the line
  \<^verbatim>\<open>no function\<close>, and the line of each point holds its coordinates only. With a
  non-empty name, \<^verbatim>\<open>save\<close> writes the name, and the line of each point ends with its
  appearance value.
\<close>

theorem empty_second_param_name:
  "PointCloud_init pts (Some []) cm md = PointCloud_init pts None cm md
   \<and> (PointCloud_init pts (Some []) cm md = Inr pc \<longrightarrow>
        second_param_name pc = None \<and>
        PointCloud_save fmt pc out =
          out @ comment_lines cm
            @ [''points'' @ [CHR 0x0A], str_nat (dimension pc) @ [CHR 0x0A],
               fmt (max_dist pc) @ [CHR 0x0A], ''no function'' @ [CHR 0x0A] ]
            @ concat (map (point_line fmt False) pts) @ [ [CHR 0x0A] ])
   \<and> (name \<noteq> [] \<and> PointCloud_init pts (Some name) cm md = Inr pc' \<longrightarrow>
        second_param_name pc' = Some name \<and>
        PointCloud_save fmt pc' out =
          out @ comment_lines cm
            @ [''points'' @ [CHR 0x0A], str_nat (dimension pc') @ [CHR 0x0A],
               fmt (max_dist pc') @ [CHR 0x0A], name @ [CHR 0x0A] ]
            @ concat (map (point_line fmt True) pts) @ [ [CHR 0x0A] ])"
proof (intro conjI impI)
  show "PointCloud_init pts (Some []) cm md = PointCloud_init pts None cm md"
    by (simp add: PointCloud_init_def split: list.splits option.splits)
next
  assume i: "PointCloud_init pts (Some []) cm md = Inr pc"
  from PointCloud_init_Inr [OF i] show "second_param_name pc = None" by simp
  from PointCloud_init_Inr [OF i]
  show "PointCloud_save fmt pc out =
          out @ comment_lines cm
            @ [''points'' @ [CHR 0x0A], str_nat (dimension pc) @ [CHR 0x0A],
               fmt (max_dist pc) @ [CHR 0x0A], ''no function'' @ [CHR 0x0A] ]
            @ concat (map (point_line fmt False) pts) @ [ [CHR 0x0A] ]"
    by (simp add: PointCloud_save_eq)
next
  assume "name \<noteq> [] \<and> PointCloud_init pts (Some name) cm md = Inr pc'"
  then have n: "name \<noteq> []" and i: "PointCloud_init pts (Some name) cm md = Inr pc'"
    by simp_all
  from PointCloud_init_Inr [OF i] n show "second_param_name pc' = Some name" by simp
  from PointCloud_init_Inr [OF i] n
  show "PointCloud_save fmt pc' out =
          out @ comment_lines cm
            @ [''points'' @ [CHR 0x0A], str_nat (dimension pc') @ [CHR 0x0A],
               fmt (max_dist pc') @ [CHR 0x0A], name @ [CHR 0x0A] ]
            @ concat (map (point_line fmt True) pts) @ [ [CHR 0x0A] ]"
    by (simp add: PointCloud_save_eq)
qed


text \<open>The theorem at a cloud of one point, written with \<open>format_f\<close>.\<close>

lemma format_f_digits:
  "format_f 1 = ''1.000000''" "format_f 2 = ''2.000000''" "format_f 3 = ''3.000000''"
  "format_f 7 = ''7.000000''" "format_f 9 = ''9.000000''"
  "str_nat (Suc 0) = ''1''" "str_nat 2 = ''2''" "str_nat (Suc (Suc (Suc 0))) = ''3''"
  by (simp_all add: format_f_def str_nat.simps digit_char_def)

theorem empty_second_param_name_witness:
  "PointCloud_init [\<lparr>appearance = 7, coords = [1::int, 2]\<rparr>] (Some []) None None
     = Inr \<lparr>second_param_name = None, points = [\<lparr>appearance = 7, coords = [1, 2]\<rparr>],
            comments = None, dimension = 2, max_dist = 2\<rparr>
   \<and> PointCloud_save format_f
        \<lparr>second_param_name = None, points = [\<lparr>appearance = 7, coords = [1, 2]\<rparr>],
         comments = None, dimension = 2, max_dist = 2\<rparr> []
     = [''points\<newline>'', ''2\<newline>'', ''2.000000\<newline>'', ''no function\<newline>'',
        ''1.000000'', '' '', ''2.000000'', '' '', ''\<newline>'', ''\<newline>'']
   \<and> PointCloud_init [\<lparr>appearance = 7, coords = [1::int, 2]\<rparr>] (Some ''t'') None None
     = Inr \<lparr>second_param_name = Some ''t'', points = [\<lparr>appearance = 7, coords = [1, 2]\<rparr>],
            comments = None, dimension = 2, max_dist = 2\<rparr>
   \<and> PointCloud_save format_f
        \<lparr>second_param_name = Some ''t'', points = [\<lparr>appearance = 7, coords = [1, 2]\<rparr>],
         comments = None, dimension = 2, max_dist = 2\<rparr> []
     = [''points\<newline>'', ''2\<newline>'', ''2.000000\<newline>'', ''t\<newline>'',
        ''1.000000'', '' '', ''2.000000'', '' '', ''7.000000 '', ''\<newline>'', ''\<newline>'']"
proof -
  let ?pts = "[\<lparr>appearance = 7, coords = [1::int, 2]\<rparr>]"
  let ?pc = "\<lparr>second_param_name = None, points = ?pts, comments = None, dimension = 2,
              max_dist = (2::int)\<rparr>"
  let ?pc' = "\<lparr>second_param_name = Some ''t'', points = ?pts, comments = None, dimension = 2,
              max_dist = (2::int)\<rparr>"
  have a: "PointCloud_init ?pts (Some []) None None = Inr ?pc"
    by (simp add: PointCloud_init_def Point_dimension_def calc_max_dist_def)
  have b: "''t'' \<noteq> [] \<and> PointCloud_init ?pts (Some ''t'') None None = Inr ?pc'"
    by (simp add: PointCloud_init_def Point_dimension_def calc_max_dist_def)
  from empty_second_param_name [of ?pts None None ?pc format_f "[]" "''t''" ?pc'] a b
  have "PointCloud_save format_f ?pc [] =
          [''points\<newline>'', ''2\<newline>'', ''2.000000\<newline>'', ''no function\<newline>'',
           ''1.000000'', '' '', ''2.000000'', '' '', ''\<newline>'', ''\<newline>'']"
    and "PointCloud_save format_f ?pc' [] =
          [''points\<newline>'', ''2\<newline>'', ''2.000000\<newline>'', ''t\<newline>'',
           ''1.000000'', '' '', ''2.000000'', '' '', ''7.000000 '', ''\<newline>'', ''\<newline>'']"
    by (simp_all add: comment_lines_def point_line_def format_f_digits)
  with a b show ?thesis by simp
qed

subsection \<open>What MetricSpace.save writes\<close>

lemma map_err_Inr:
  assumes "\<forall>x\<in>set xs. f x = Inr (g x)"
  shows "map_err f xs = Inr (map g xs)"
  using assms by (induction xs) simp_all

lemma square_rows:
  assumes "\<forall>row\<in>set m. length row = length m"
  shows "concat (map (\<lambda>i. map (\<lambda>j. m ! i ! j) [0..<length m]) [0..<length m]) = concat m"
proof -
  have "map (\<lambda>i. map (\<lambda>j. m ! i ! j) [0..<length m]) [0..<length m] = m"
  proof (rule nth_equalityI)
    show "length (map (\<lambda>i. map (\<lambda>j. m ! i ! j) [0..<length m]) [0..<length m]) = length m"
      by simp
  next
    fix i assume "i < length (map (\<lambda>i. map (\<lambda>j. m ! i ! j) [0..<length m]) [0..<length m])"
    then have i: "i < length m" by simp
    then have "length (m ! i) = length m" using assms by simp
    then have "map (\<lambda>j. m ! i ! j) [0..<length m] = m ! i"
      by (metis map_nth)
    with i show "map (\<lambda>i. map (\<lambda>j. m ! i ! j) [0..<length m]) [0..<length m] ! i = m ! i"
      by simp
  qed
  then show ?thesis by simp
qed

lemma matrix_entries_square:
  assumes "\<forall>row\<in>set m. length row = length m"
  shows "matrix_entries m (length m) = Inr (concat m)"
proof -
  let ?pairs = "concat (map (\<lambda>i. map (\<lambda>j. (i, j)) [0..<length m]) [0..<length m])"
  have "\<forall>x\<in>set ?pairs. (\<lambda>(i, j). matrix_get m i j) x = Inr ((\<lambda>(i, j). m ! i ! j) x)"
    using assms by (auto simp: matrix_get_def list_get_def)
  then have "matrix_entries m (length m) = Inr (map (\<lambda>(i, j). m ! i ! j) ?pairs)"
    unfolding matrix_entries_def by (rule map_err_Inr)
  also have "map (\<lambda>(i, j). m ! i ! j) ?pairs
             = concat (map (\<lambda>i. map (\<lambda>j. m ! i ! j) [0..<length m]) [0..<length m])"
    by (simp add: map_concat comp_def)
  finally show ?thesis using square_rows [OF assms] by simp
qed

lemma foldl_max_Max: "foldl max x ys = Max (set (x # ys))" for x :: "'a::linorder"
proof -
  have "(\<lambda>a b. max b a) = (max :: 'a \<Rightarrow> 'a \<Rightarrow> 'a)"
    by (intro ext) (rule max.commute)
  then have "foldl max x ys = fold max ys x"
    by (simp only: foldl_conv_fold)
  then show ?thesis by (simp only: Max.set_eq_fold)
qed

lemma max_star_Max:
  assumes "2 \<le> length es"
  shows "max_star es = Inr (Max (set es))"
proof -
  from assms obtain x y ys where "es = x # y # ys"
    by (cases es; cases "tl es") auto
  then show ?thesis by (simp only: max_star.simps foldl_max_Max)
qed

lemma concat_square_length:
  assumes "\<forall>row\<in>set m. length row = length m"
  shows "length (concat m) = length m * length m"
proof -
  have "map length m = replicate (length m) (length m)"
    using assms by (intro nth_equalityI) simp_all
  then show ?thesis by (simp add: length_concat sum_list_replicate)
qed

lemma MetricSpace_save_square:
  assumes sq: "\<forall>row\<in>set (distance_matrix ms). length row = length (distance_matrix ms)"
    and n2: "2 \<le> length (distance_matrix ms)"
  shows "MetricSpace_save fmt ms out =
           ([''metric'' @ [CHR 0x0A] ] @ metric_comment (comment ms) @ metric_function fmt ms
              @ [distance_label ms @ [CHR 0x0A] ]
              @ [fmt (Max (set (concat (distance_matrix ms)))) @ [CHR 0x0A] ]
              @ write_rows fmt (distance_matrix ms) (length (distance_matrix ms)), None)"
proof -
  let ?m = "distance_matrix ms"
  have "2 * 2 \<le> length ?m * length ?m" using n2 by (intro mult_le_mono)
  then have "2 \<le> length (concat ?m)" using concat_square_length [OF sq] by simp
  then have "max_star (concat ?m) = Inr (Max (set (concat ?m)))" by (rule max_star_Max)
  then show ?thesis
    by (simp add: MetricSpace_save_def matrix_entries_square [OF sq] Let_def)
qed

lemma MetricSpace_save_small:
  assumes sq: "\<forall>row\<in>set (distance_matrix ms). length row = length (distance_matrix ms)"
    and n2: "length (distance_matrix ms) < 2"
  shows "MetricSpace_save fmt ms out =
           ([''metric'' @ [CHR 0x0A] ] @ metric_comment (comment ms) @ metric_function fmt ms
              @ [distance_label ms @ [CHR 0x0A] ], Some TypeError)"
proof -
  let ?m = "distance_matrix ms"
  from n2 have "length ?m = 0 \<or> length ?m = 1" by linarith
  then have "length (concat ?m) < 2" using concat_square_length [OF sq] by auto
  then have "concat ?m = [] \<or> (\<exists>x. concat ?m = [x])"
    by (cases "concat ?m") (simp_all add: length_Suc_conv)
  then have "max_star (concat ?m) = Inl TypeError"
    by (elim disjE exE) (simp_all only: max_star.simps)
  then show ?thesis
    by (simp add: MetricSpace_save_def matrix_entries_square [OF sq] Let_def)
qed


text \<open>
  For an n-by-n distance matrix with at least two rows, \<^verbatim>\<open>MetricSpace.save\<close> ends
  without an exception and the stream holds: the line \<^verbatim>\<open>metric\<close>, the comment block, the
  appearance block, the distance label, the maximum over all entries of the matrix (every
  index pair, not the upper triangle only), and for each row \<open>r\<close> from 0 to \<open>n - 1\<close> the
  entries of the columns \<open>r + 1\<close> to \<open>n - 1\<close>, each followed by a space, then a newline.
  Without appearance values the appearance block is \<^verbatim>\<open>no function\<close> and the point count.
  Row \<open>r\<close> has \<open>n - 1 - r\<close> entries.
\<close>

lemma MetricSpace_save_format:
  assumes "\<forall>row\<in>set (distance_matrix ms). length row = length (distance_matrix ms)"
    and "2 \<le> length (distance_matrix ms)"
  shows "MetricSpace_save fmt ms out =
           ([''metric\<newline>''] @ metric_comment (comment ms) @ metric_function fmt ms
              @ [distance_label ms @ ''\<newline>'']
              @ [fmt (Max (set (concat (distance_matrix ms)))) @ ''\<newline>'']
              @ concat (map (\<lambda>r. map (\<lambda>c. fmt (distance_matrix ms ! r ! c) @ '' '')
                                     [r + 1..<length (distance_matrix ms)] @ [''\<newline>''])
                        [0..<length (distance_matrix ms)]),
            None)
         \<and> (appearance_values ms = None \<longrightarrow>
              metric_function fmt ms =
                [''no function\<newline>'', str_nat (length (distance_matrix ms)) @ ''\<newline>''])
         \<and> (\<forall>r<length (distance_matrix ms).
              length (map (\<lambda>c. fmt (distance_matrix ms ! r ! c) @ '' '')
                        [r + 1..<length (distance_matrix ms)])
              = length (distance_matrix ms) - 1 - r)"
proof (intro conjI impI)
  have "write_rows fmt (distance_matrix ms) (length (distance_matrix ms)) =
          concat (map (\<lambda>r. map (\<lambda>c. fmt (distance_matrix ms ! r ! c) @ '' '')
                                [r + 1..<length (distance_matrix ms)] @ [''\<newline>''])
                   [0..<length (distance_matrix ms)])"
    by (simp add: write_rows_def write_row_def [abs_def])
  with MetricSpace_save_square [OF assms, of fmt out]
  show "MetricSpace_save fmt ms out =
           ([''metric\<newline>''] @ metric_comment (comment ms) @ metric_function fmt ms
              @ [distance_label ms @ ''\<newline>'']
              @ [fmt (Max (set (concat (distance_matrix ms)))) @ ''\<newline>'']
              @ concat (map (\<lambda>r. map (\<lambda>c. fmt (distance_matrix ms ! r ! c) @ '' '')
                                     [r + 1..<length (distance_matrix ms)] @ [''\<newline>''])
                        [0..<length (distance_matrix ms)]),
            None)"
    by simp
next
  assume "appearance_values ms = None"
  then show "metric_function fmt ms =
                [''no function\<newline>'', str_nat (length (distance_matrix ms)) @ ''\<newline>'']"
    by (simp add: metric_function_def)
next
  show "\<forall>r<length (distance_matrix ms).
              length (map (\<lambda>c. fmt (distance_matrix ms ! r ! c) @ '' '')
                        [r + 1..<length (distance_matrix ms)])
              = length (distance_matrix ms) - 1 - r"
    by simp
qed

text \<open>
  At a 3-by-3 matrix whose largest entry, 9, lies below the diagonal: 9 is written as the
  maximum, and the rows have 2, 1 and 0 entries.
\<close>

lemma MetricSpace_save_three_by_three:
  "MetricSpace_save format_f
     \<lparr>comment = None, appearance_label = [], distance_label = ''d'', appearance_values = None,
      distance_matrix = [ [0, 1, 2], [9, 0, 3], [0, 0, 0::int] ]\<rparr> [''old'']
   = ([''metric\<newline>'', ''no function\<newline>'', ''3\<newline>'', ''d\<newline>'', ''9.000000\<newline>'',
       ''1.000000 '', ''2.000000 '', ''\<newline>'', ''3.000000 '', ''\<newline>'', ''\<newline>''],
      None)"
proof -
  let ?m = "[ [0, 1, 2], [9, 0, 3], [0, 0, 0::int] ]"
  let ?ms = "\<lparr>comment = None, appearance_label = [], distance_label = ''d'',
              appearance_values = None, distance_matrix = ?m\<rparr>"
  have sq: "\<forall>row\<in>set (distance_matrix ?ms). length row = length (distance_matrix ?ms)"
    by simp
  have n2: "2 \<le> length (distance_matrix ?ms)" by simp
  have up: "[0..<3] = [0, 1, 2]" "[1..<3] = [1, 2]" "[2..<3] = [2]" "[3..<3] = []"
    by (simp_all add: upt_rec)
  from MetricSpace_save_format [OF sq n2, of format_f "[''old'']"]
  show ?thesis
    by (simp add: metric_comment_def up format_f_digits)
qed

text \<open>
  Claim C6. The claim describes the stream for every n-by-n distance matrix: the maximum
  over all entries as \<^verbatim>\<open>max_dist\<close>, then the rows \<open>r\<close> from 0 to \<open>n - 1\<close> with the columns
  \<open>r + 1\<close> to \<open>n - 1\<close>. For \<open>n \<ge> 2\<close> the source does that (\<open>MetricSpace_save_format\<close>). For
  the 1-by-1 matrix with the entry 5 it should write the maximum 5 and one empty row; the
  source writes the header, the point count 1 and the distance label, and then
  \<^verbatim>\<open>max(*[5])\<close>, which is \<^verbatim>\<open>max(5)\<close>, raises \<^verbatim>\<open>TypeError\<close>: neither the maximum nor the
  row is written.
\<close>

theorem MetricSpace_save_format_fails_one_by_one:
  "MetricSpace_save format_f
     \<lparr>comment = None, appearance_label = [], distance_label = ''dist'',
      appearance_values = None, distance_matrix = [ [5::int] ]\<rparr> []
   = ([''metric\<newline>'', ''no function\<newline>'', ''1\<newline>'', ''dist\<newline>''], Some TypeError)"
proof -
  let ?ms = "\<lparr>comment = None, appearance_label = [], distance_label = ''dist'',
              appearance_values = None, distance_matrix = [ [5::int] ]\<rparr>"
  have sq: "\<forall>row\<in>set (distance_matrix ?ms). length row = length (distance_matrix ?ms)"
    by simp
  have n: "length (distance_matrix ?ms) < 2" by simp
  from MetricSpace_save_small [OF sq n, of format_f "[]"]
  show ?thesis
    by (simp add: metric_comment_def metric_function_def format_f_digits)
qed

text \<open>
  Claim C10. For a 1-by-1 distance matrix \<^verbatim>\<open>max\<close> receives a single number and raises
  \<^verbatim>\<open>TypeError\<close>; the stream then ends with the distance label: neither the maximum nor a
  distance row has been written. For square matrices \<^verbatim>\<open>save\<close> ends without an exception
  exactly when the matrix has at least two rows.
\<close>

theorem MetricSpace_save_one_by_one:
  "(distance_matrix ms = [ [d] ] \<longrightarrow>
      MetricSpace_save fmt ms out =
        ([''metric\<newline>''] @ metric_comment (comment ms) @ metric_function fmt ms
           @ [distance_label ms @ ''\<newline>''], Some TypeError))
   \<and> ((\<forall>row\<in>set (distance_matrix ms). length row = length (distance_matrix ms)) \<longrightarrow>
        (snd (MetricSpace_save fmt ms out) = None) = (2 \<le> length (distance_matrix ms)))"
proof (intro conjI impI)
  assume m: "distance_matrix ms = [ [d] ]"
  then have sq: "\<forall>row\<in>set (distance_matrix ms). length row = length (distance_matrix ms)"
    and n: "length (distance_matrix ms) < 2" by simp_all
  from MetricSpace_save_small [OF sq n, of fmt out]
  show "MetricSpace_save fmt ms out =
        ([''metric\<newline>''] @ metric_comment (comment ms) @ metric_function fmt ms
           @ [distance_label ms @ ''\<newline>''], Some TypeError)"
    by simp
next
  assume sq: "\<forall>row\<in>set (distance_matrix ms). length row = length (distance_matrix ms)"
  show "(snd (MetricSpace_save fmt ms out) = None) = (2 \<le> length (distance_matrix ms))"
  proof (cases "2 \<le> length (distance_matrix ms)")
    case True
    with MetricSpace_save_square [OF sq True, of fmt out] show ?thesis by simp
  next
    case False
    then have "length (distance_matrix ms) < 2" by simp
    from MetricSpace_save_small [OF sq this, of fmt out] False show ?thesis by simp
  qed
qed

text \<open>The theorem at the matrices \<open>[ [7] ]\<close> and \<open>[ [0, 4], [0, 0] ]\<close>.\<close>

theorem MetricSpace_save_one_by_one_witness:
  "MetricSpace_save format_f
     \<lparr>comment = None, appearance_label = [], distance_label = ''d'', appearance_values = None,
      distance_matrix = [ [7::int] ]\<rparr> []
   = ([''metric\<newline>'', ''no function\<newline>'', ''1\<newline>'', ''d\<newline>''], Some TypeError)
   \<and> snd (MetricSpace_save format_f
     \<lparr>comment = None, appearance_label = [], distance_label = ''d'', appearance_values = None,
      distance_matrix = [ [0, 4], [0, 0::int] ]\<rparr> []) = None"
proof -
  let ?one = "\<lparr>comment = None, appearance_label = [], distance_label = ''d'',
              appearance_values = None, distance_matrix = [ [7::int] ]\<rparr>"
  let ?two = "\<lparr>comment = None, appearance_label = [], distance_label = ''d'',
              appearance_values = None, distance_matrix = [ [0, 4], [0, 0::int] ]\<rparr>"
  have one: "distance_matrix ?one = [ [7] ]" by simp
  have sq: "\<forall>row\<in>set (distance_matrix ?two). length row = length (distance_matrix ?two)"
    by simp
  from MetricSpace_save_one_by_one [of ?one 7 format_f "[]"] one
  have a: "MetricSpace_save format_f ?one [] =
             ([''metric\<newline>'', ''no function\<newline>'', ''1\<newline>'', ''d\<newline>''], Some TypeError)"
    by (simp add: metric_comment_def metric_function_def format_f_digits)
  from MetricSpace_save_one_by_one [of ?two 0 format_f "[]"] sq
  have b: "snd (MetricSpace_save format_f ?two []) = None" by simp
  from a b show ?thesis by simp
qed

subsection \<open>parse_bounds\<close>

lemma map_err_Cons_Inr:
  "map_err f (x # xs) = Inr ys \<Longrightarrow> \<exists>y ys'. ys = y # ys' \<and> f x = Inr y \<and> map_err f xs = Inr ys'"
  by (auto split: sum.splits)

lemma parse_bounds_loop_last:
  assumes "map_err (str_utf8 dec) lines = Inr dls"
    and "\<forall>l\<in>set (map str_strip dls). startswith l ''low:'' \<longrightarrow>
           returns (map_err pfloat (split_on (CHR '','') (drop 5 l)))"
    and "\<forall>l\<in>set (map str_strip dls). startswith l ''high:'' \<longrightarrow>
           returns (map_err pfloat (split_on (CHR '','') (drop 6 l)))"
  shows "\<exists>low high. parse_bounds_loop dec pfloat lines (lo0, hi0) = Inr (low, high)
           \<and> (case filter (\<lambda>l. startswith l ''low:'') (map str_strip dls) of
                 [] \<Rightarrow> Inr lo0
               | l # ls \<Rightarrow> map_err pfloat (split_on (CHR '','') (drop 5 (last (l # ls))))) = Inr low
           \<and> (case filter (\<lambda>l. startswith l ''high:'') (map str_strip dls) of
                 [] \<Rightarrow> Inr hi0
               | l # ls \<Rightarrow> map_err pfloat (split_on (CHR '','') (drop 6 (last (l # ls))))) = Inr high"
  using assms
proof (induction lines arbitrary: dls lo0 hi0)
  case Nil
  then show ?case by simp
next
  case (Cons line lines)
  from map_err_Cons_Inr [OF Cons.prems(1)] obtain d ds where
    d: "dls = d # ds" "str_utf8 dec line = Inr d" "map_err (str_utf8 dec) lines = Inr ds"
    by blast
  let ?s = "str_strip d"
  define lo1 where "lo1 = (if startswith ?s ''low:''
      then map_err pfloat (split_on (CHR '','') (drop 5 ?s)) else Inr lo0)"
  define hi1 where "hi1 = (if startswith ?s ''high:''
      then map_err pfloat (split_on (CHR '','') (drop 6 ?s)) else Inr hi0)"
  from Cons.prems(2) d(1) obtain lo where lo: "lo1 = Inr lo"
    unfolding lo1_def
    by (cases "startswith ?s ''low:''") (auto simp: returns_def split: sum.splits)
  from Cons.prems(3) d(1) obtain hi where hi: "hi1 = Inr hi"
    unfolding hi1_def
    by (cases "startswith ?s ''high:''") (auto simp: returns_def split: sum.splits)
  have step: "parse_bounds_line dec pfloat line (lo0, hi0) = Inr (lo, hi)"
    using lo hi unfolding lo1_def hi1_def
    by (auto simp: parse_bounds_line_def d(2) Let_def split: if_splits)
  have p2: "\<forall>l\<in>set (map str_strip ds). startswith l ''low:'' \<longrightarrow>
           returns (map_err pfloat (split_on (CHR '','') (drop 5 l)))"
    using Cons.prems(2) d(1) by simp
  have p3: "\<forall>l\<in>set (map str_strip ds). startswith l ''high:'' \<longrightarrow>
           returns (map_err pfloat (split_on (CHR '','') (drop 6 l)))"
    using Cons.prems(3) d(1) by simp
  from Cons.IH [OF d(3) p2 p3, of lo hi] obtain low high where
    r: "parse_bounds_loop dec pfloat lines (lo, hi) = Inr (low, high)"
      "(case filter (\<lambda>l. startswith l ''low:'') (map str_strip ds) of
                 [] \<Rightarrow> Inr lo
               | l # ls \<Rightarrow> map_err pfloat (split_on (CHR '','') (drop 5 (last (l # ls))))) = Inr low"
      "(case filter (\<lambda>l. startswith l ''high:'') (map str_strip ds) of
                 [] \<Rightarrow> Inr hi
               | l # ls \<Rightarrow> map_err pfloat (split_on (CHR '','') (drop 6 (last (l # ls))))) = Inr high"
    by blast
  have a: "parse_bounds_loop dec pfloat (line # lines) (lo0, hi0) = Inr (low, high)"
    using step r(1) by simp
  have b: "(case filter (\<lambda>l. startswith l ''low:'') (map str_strip dls) of
                 [] \<Rightarrow> Inr lo0
               | l # ls \<Rightarrow> map_err pfloat (split_on (CHR '','') (drop 5 (last (l # ls))))) = Inr low"
    using r(2) lo unfolding lo1_def d(1)
    by (cases "startswith ?s ''low:''";
        cases "filter (\<lambda>l. startswith l ''low:'') (map str_strip ds)") simp_all
  have c: "(case filter (\<lambda>l. startswith l ''high:'') (map str_strip dls) of
                 [] \<Rightarrow> Inr hi0
               | l # ls \<Rightarrow> map_err pfloat (split_on (CHR '','') (drop 6 (last (l # ls))))) = Inr high"
    using r(3) hi unfolding hi1_def d(1)
    by (cases "startswith ?s ''high:''";
        cases "filter (\<lambda>l. startswith l ''high:'') (map str_strip ds)") simp_all
  from a b c show ?case by blast
qed

lemma parse_bounds_corners:
  assumes "map_err (str_utf8 dec) lines = Inr dls"
    and "\<forall>l\<in>set (map str_strip dls). startswith l ''low:'' \<longrightarrow>
           returns (map_err pfloat (split_on (CHR '','') (drop 5 l)))"
    and "\<forall>l\<in>set (map str_strip dls). startswith l ''high:'' \<longrightarrow>
           returns (map_err pfloat (split_on (CHR '','') (drop 6 l)))"
  shows "\<exists>low high. parse_bounds dec pfloat lines = Inr \<lparr>lower_left = low, upper_right = high\<rparr>
           \<and> corner_of pfloat ''low:'' 5 (map str_strip dls) = Inr low
           \<and> corner_of pfloat ''high:'' 6 (map str_strip dls) = Inr high"
proof -
  from parse_bounds_loop_last [OF assms, of "[0, 0]" "[0, 0]"] obtain low high where
    r: "parse_bounds_loop dec pfloat lines ([0, 0], [0, 0]) = Inr (low, high)"
      "(case filter (\<lambda>l. startswith l ''low:'') (map str_strip dls) of
                 [] \<Rightarrow> Inr [0, 0]
               | l # ls \<Rightarrow> map_err pfloat (split_on (CHR '','') (drop 5 (last (l # ls))))) = Inr low"
      "(case filter (\<lambda>l. startswith l ''high:'') (map str_strip dls) of
                 [] \<Rightarrow> Inr [0, 0]
               | l # ls \<Rightarrow> map_err pfloat (split_on (CHR '','') (drop 6 (last (l # ls))))) = Inr high"
    by blast
  from r(1) have "parse_bounds dec pfloat lines = Inr \<lparr>lower_left = low, upper_right = high\<rparr>"
    by (simp add: parse_bounds_def)
  with r(2,3) show ?thesis unfolding corner_of_def by blast
qed

lemma bounds_example_lines:
  "str_utf8 dec ''low: 1.0,2.0'' = Inr ''low: 1.0,2.0''"
  "str_utf8 dec ''high: 3.0,4.0'' = Inr ''high: 3.0,4.0''"
  "str_strip ''low: 1.0,2.0'' = ''low: 1.0,2.0''"
  "str_strip ''high: 3.0,4.0'' = ''high: 3.0,4.0''"
  "startswith ''low: 1.0,2.0'' ''low:''" "\<not> startswith ''low: 1.0,2.0'' ''high:''"
  "startswith ''high: 3.0,4.0'' ''high:''" "\<not> startswith ''high: 3.0,4.0'' ''low:''"
  "split_on (CHR '','') ''1.0,2.0'' = [''1.0'', ''2.0'']"
  "split_on (CHR '','') ''3.0,4.0'' = [''3.0'', ''4.0'']"
  by (simp_all add: str_utf8_def ascii_def str_strip_def strip_with_def str_space_def
      bytes_space_def startswith_def)

lemma parse_bounds_example:
  assumes "pfloat ''1.0'' = Inr a" "pfloat ''2.0'' = Inr b"
    "pfloat ''3.0'' = Inr c" "pfloat ''4.0'' = Inr d"
  shows "parse_bounds dec pfloat [''low: 1.0,2.0'', ''high: 3.0,4.0'']
           = Inr \<lparr>lower_left = [a, b], upper_right = [c, d]\<rparr>"
  by (simp add: parse_bounds_def parse_bounds_line_def bounds_example_lines assms)

text \<open>
  Claim C4. Let every input line decode, and let the floats of every line that starts,
  after stripping, with \<^verbatim>\<open>low:\<close> or \<^verbatim>\<open>high:\<close> parse, so that no exception ends the
  scan. Then \<^verbatim>\<open>parse_bounds\<close> returns the Bounds whose lower-left corner is made of the
  comma-separated floats after the fifth character of the last stripped line starting
  with \<^verbatim>\<open>low:\<close>, and whose upper-right corner is made of those after the sixth character
  of the last stripped line starting with \<^verbatim>\<open>high:\<close>; a corner whose prefix no line has is
  \<open>(0, 0)\<close>, and the other lines have no effect. The lines \<^verbatim>\<open>low: 1.0,2.0\<close> and
  \<^verbatim>\<open>high: 3.0,4.0\<close> give the corners made of the four floats, whatever \<^verbatim>\<open>float\<close> returns
  for the four literals, and the empty input gives \<open>((0, 0), (0, 0))\<close>.
\<close>

theorem parse_bounds_last_prefix_wins:
  "(map_err (str_utf8 dec) lines = Inr dls
      \<and> (\<forall>l\<in>set (map str_strip dls). startswith l ''low:'' \<longrightarrow>
            returns (map_err pfloat (split_on (CHR '','') (drop 5 l))))
      \<and> (\<forall>l\<in>set (map str_strip dls). startswith l ''high:'' \<longrightarrow>
            returns (map_err pfloat (split_on (CHR '','') (drop 6 l))))
    \<longrightarrow> (\<exists>low high.
           parse_bounds dec pfloat lines = Inr \<lparr>lower_left = low, upper_right = high\<rparr>
           \<and> corner_of pfloat ''low:'' 5 (map str_strip dls) = Inr low
           \<and> corner_of pfloat ''high:'' 6 (map str_strip dls) = Inr high))
   \<and> (pfloat ''1.0'' = Inr a \<and> pfloat ''2.0'' = Inr b \<and> pfloat ''3.0'' = Inr c
        \<and> pfloat ''4.0'' = Inr d
    \<longrightarrow> parse_bounds dec pfloat [''low: 1.0,2.0'', ''high: 3.0,4.0'']
          = Inr \<lparr>lower_left = [a, b], upper_right = [c, d]\<rparr>)
   \<and> parse_bounds dec pfloat [] = Inr \<lparr>lower_left = [0, 0], upper_right = [0, 0]\<rparr>"
proof (intro conjI impI)
  assume "map_err (str_utf8 dec) lines = Inr dls
      \<and> (\<forall>l\<in>set (map str_strip dls). startswith l ''low:'' \<longrightarrow>
            returns (map_err pfloat (split_on (CHR '','') (drop 5 l))))
      \<and> (\<forall>l\<in>set (map str_strip dls). startswith l ''high:'' \<longrightarrow>
            returns (map_err pfloat (split_on (CHR '','') (drop 6 l))))"
  then show "\<exists>low high.
           parse_bounds dec pfloat lines = Inr \<lparr>lower_left = low, upper_right = high\<rparr>
           \<and> corner_of pfloat ''low:'' 5 (map str_strip dls) = Inr low
           \<and> corner_of pfloat ''high:'' 6 (map str_strip dls) = Inr high"
    using parse_bounds_corners [of dec lines dls pfloat] by blast
next
  assume "pfloat ''1.0'' = Inr a \<and> pfloat ''2.0'' = Inr b \<and> pfloat ''3.0'' = Inr c
        \<and> pfloat ''4.0'' = Inr d"
  then show "parse_bounds dec pfloat [''low: 1.0,2.0'', ''high: 3.0,4.0'']
          = Inr \<lparr>lower_left = [a, b], upper_right = [c, d]\<rparr>"
    using parse_bounds_example [of pfloat a b c d dec] by blast
next
  show "parse_bounds dec pfloat [] = Inr \<lparr>lower_left = [0, 0], upper_right = [0, 0]\<rparr>"
    by (simp add: parse_bounds_def)
qed

text \<open>
  The theorem at five lines: a first \<^verbatim>\<open>low:\<close> line that a later one overrides, a line
  with neither prefix, a \<^verbatim>\<open>low:\<close> line to be stripped, a \<^verbatim>\<open>high:\<close> line and a blank line.
\<close>

theorem parse_bounds_last_prefix_wins_witness:
  "parse_bounds ascii_only literal_float
     [''low: 9,9'', ''bounds'', '' low: 1.0,2.0 '', ''high: 3.0,4.0'', [] ]
     = Inr \<lparr>lower_left = [1, 2], upper_right = [3, 4]\<rparr>
   \<and> parse_bounds ascii_only literal_float [''low: 1.0,2.0'', ''high: 3.0,4.0'']
     = Inr \<lparr>lower_left = [1, 2], upper_right = [3, 4]\<rparr>"
proof -
  let ?lines = "[''low: 9,9'', ''bounds'', '' low: 1.0,2.0 '', ''high: 3.0,4.0'', [] ]"
  have dec: "map_err (str_utf8 ascii_only) ?lines = Inr ?lines"
    by code_simp
  have lo: "\<forall>l\<in>set (map str_strip ?lines). startswith l ''low:'' \<longrightarrow>
            returns (map_err literal_float (split_on (CHR '','') (drop 5 l)))"
    by code_simp
  have hi: "\<forall>l\<in>set (map str_strip ?lines). startswith l ''high:'' \<longrightarrow>
            returns (map_err literal_float (split_on (CHR '','') (drop 6 l)))"
    by code_simp
  have cl: "corner_of literal_float ''low:'' 5 (map str_strip ?lines) = Inr [1, 2]"
    by code_simp
  have ch: "corner_of literal_float ''high:'' 6 (map str_strip ?lines) = Inr [3, 4]"
    by code_simp
  have fl: "literal_float ''1.0'' = Inr 1 \<and> literal_float ''2.0'' = Inr 2
            \<and> literal_float ''3.0'' = Inr 3 \<and> literal_float ''4.0'' = Inr 4"
    by code_simp
  note t = parse_bounds_last_prefix_wins [of ascii_only ?lines ?lines literal_float 1 2 3 4]
  from t dec lo hi obtain low high where
    r: "parse_bounds ascii_only literal_float ?lines = Inr \<lparr>lower_left = low, upper_right = high\<rparr>"
       "corner_of literal_float ''low:'' 5 (map str_strip ?lines) = Inr low"
       "corner_of literal_float ''high:'' 6 (map str_strip ?lines) = Inr high"
    by blast
  from r(2) cl have "low = [1, 2]" by simp
  moreover from r(3) ch have "high = [3, 4]" by simp
  ultimately have a: "parse_bounds ascii_only literal_float ?lines
      = Inr \<lparr>lower_left = [1, 2], upper_right = [3, 4]\<rparr>"
    using r(1) by simp
  from t fl have b: "parse_bounds ascii_only literal_float [''low: 1.0,2.0'', ''high: 3.0,4.0'']
     = Inr \<lparr>lower_left = [1, 2], upper_right = [3, 4]\<rparr>"
    by blast
  from a b show ?thesis by simp
qed

subsection \<open>_parse_betti\<close>










subsection \<open>_parse_slices\<close>

lemma split_on_not_Nil: "split_on sep s \<noteq> []"
  by (induction s) simp_all

lemma length_split_on: "length (split_on sep s) = Suc (count_list s sep)"
proof (induction s)
  case Nil
  show ?case by simp
next
  case (Cons c cs)
  have "length (tl (split_on sep cs)) = count_list cs sep"
    using Cons.IH by simp
  then show ?case using Cons.IH by simp
qed

lemma split_on_absent: "sep \<notin> set s \<Longrightarrow> split_on sep s = [s]"
  by (induction s) auto

lemma split_on_once:
  "count_list s sep = 1 \<Longrightarrow>
     split_on sep s = [takeWhile (\<lambda>c. c \<noteq> sep) s, drop 1 (dropWhile (\<lambda>c. c \<noteq> sep) s)]"
proof (induction s)
  case Nil
  then show ?case by simp
next
  case (Cons c cs)
  show ?case
  proof (cases "c = sep")
    case True
    with Cons.prems have "count_list cs sep = 0" by simp
    then have "sep \<notin> set cs" by (simp add: count_list_0_iff)
    then show ?thesis using True by (simp add: split_on_absent)
  next
    case False
    with Cons.prems have "count_list cs sep = 1" by simp
    from Cons.IH [OF this] False show ?thesis by simp
  qed
qed

lemma split_on_once_first:
  "count_list s sep = 1 \<Longrightarrow> split_on sep s = [fst (split_first sep s), snd (split_first sep s)]"
  by (simp add: split_on_once split_first_def)

lemma case_pair_list_other:
  "length xs \<noteq> 2 \<Longrightarrow> (case xs of [a, b] \<Rightarrow> f a b | _ \<Rightarrow> d) = d"
  by (cases xs; cases "tl xs"; cases "tl (tl xs)") auto

lemma parse_slice_colons:
  assumes "count_list line (CHR '':'') \<noteq> 1"
  shows "parse_slice pfloat pint line = Inl ValueError"
proof -
  have "length (split_on (CHR '':'') line) \<noteq> 2"
    using assms by (simp add: length_split_on)
  then show ?thesis
    unfolding parse_slice_def by (rule case_pair_list_other)
qed

lemma parse_slice_spaces:
  assumes "count_list line (CHR '':'') = 1"
    and "count_list (fst (split_first (CHR '':'') line)) (CHR '' '') \<noteq> 1"
  shows "parse_slice pfloat pint line = Inl ValueError"
proof -
  have "length (split_on (CHR '' '') (fst (split_first (CHR '':'') line))) \<noteq> 2"
    using assms(2) by (simp add: length_split_on)
  then show ?thesis
    unfolding parse_slice_def
    by (simp add: split_on_once_first [OF assms(1)] case_pair_list_other)
qed

lemma parse_slice_once:
  assumes "count_list line (CHR '':'') = 1"
    and "count_list (fst (split_first (CHR '':'') line)) (CHR '' '') = 1"
  shows "parse_slice pfloat pint line = parse_slice_split_once pfloat pint line"
proof -
  have c: "CHR '':'' \<in> set line"
    using assms(1) count_list_0_iff [of line "CHR '':''"] by auto
  have s: "CHR '' '' \<in> set (fst (split_first (CHR '':'') line))"
    using assms(2) count_list_0_iff [of "fst (split_first (CHR '':'') line)" "CHR '' ''"] by auto
  show ?thesis
    unfolding parse_slice_def parse_slice_split_once_def
    using c s
    by (simp add: split_on_once_first [OF assms(1)] split_on_once_first [OF assms(2)]
        case_prod_beta)
qed

lemma parse_bars_acc:
  "parse_bars pfloat pint parts acc =
     (case map_err (parse_bar pfloat pint) (filter (\<lambda>p. p \<noteq> []) (map bytes_strip parts)) of
        Inl e \<Rightarrow> Inl e
      | Inr bs \<Rightarrow> Inr (acc @ bs))"
  by (induction parts arbitrary: acc) (simp_all add: Let_def split: sum.splits)

lemma parse_slices_loop_acc:
  "parse_slices_loop pfloat pint text acc =
     (case map_err (parse_slice pfloat pint) (filter (\<lambda>l. l \<noteq> []) (map bytes_strip text)) of
        Inl e \<Rightarrow> Inl e
      | Inr sls \<Rightarrow> Inr (acc @ sls))"
  by (induction "text" arbitrary: acc) (simp_all add: Let_def split: sum.splits)

lemma parse_slices_map_err:
  "parse_slices pfloat pint text =
     map_err (parse_slice pfloat pint) (filter (\<lambda>l. l \<noteq> []) (map bytes_strip text))"
  by (simp add: parse_slices_def parse_slices_loop_acc split: sum.splits)

lemma parse_bars_map_err:
  "parse_bars pfloat pint parts [] =
     map_err (parse_bar pfloat pint) (filter (\<lambda>p. p \<noteq> []) (map bytes_strip parts))"
  by (simp add: parse_bars_acc split: sum.splits)

lemma split_on_step:
  "split_on sep (c # cs) =
     (case split_on sep cs of
        w # ws \<Rightarrow> (if c = sep then [] # w # ws else (c # w) # ws)
      | [] \<Rightarrow> [ [] ])"
  using split_on_not_Nil [of sep cs] by (cases "split_on sep cs") simp_all

lemma split_on_code [code]:
  "split_on sep [] = [ [] ]"
  "split_on sep (c # cs) =
     (let r = split_on sep cs in if c = sep then [] # r else (c # hd r) # tl r)"
  by (simp_all add: Let_def)

lemma slice_example_lines:
  "bytes_strip ''0.0 0.0: 1.0 2.0 m1, 3.0 4.0 m2'' = ''0.0 0.0: 1.0 2.0 m1, 3.0 4.0 m2''"
  "split_on (CHR '':'') ''0.0 0.0: 1.0 2.0 m1, 3.0 4.0 m2'' = [''0.0 0.0'', '' 1.0 2.0 m1, 3.0 4.0 m2'']"
  "split_on (CHR '' '') ''0.0 0.0'' = [''0.0'', ''0.0'']"
  "split_on (CHR '','') '' 1.0 2.0 m1, 3.0 4.0 m2'' = ['' 1.0 2.0 m1'', '' 3.0 4.0 m2'']"
  "bytes_strip '' 1.0 2.0 m1'' = ''1.0 2.0 m1''"
  "bytes_strip '' 3.0 4.0 m2'' = ''3.0 4.0 m2''"
  "split_on (CHR '' '') ''1.0 2.0 m1'' = [''1.0'', ''2.0'', ''m1'']"
  "split_on (CHR '' '') ''3.0 4.0 m2'' = [''3.0'', ''4.0'', ''m2'']"
  by (simp_all add: bytes_strip_def strip_with_def bytes_space_def split_on_step
      del: split_on.simps(2))

lemma parse_slices_example:
  assumes "pfloat ''0.0'' = Inr z" "pfloat ''1.0'' = Inr a" "pfloat ''2.0'' = Inr b"
    "pfloat ''3.0'' = Inr c" "pfloat ''4.0'' = Inr d" "pint ''1'' = Inr 1" "pint ''2'' = Inr 2"
  shows "parse_slices pfloat pint [''0.0 0.0: 1.0 2.0 m1, 3.0 4.0 m2'']
           = Inr [((z, z), \<lparr> bars = [\<lparr> birth = a, death = b, multiplicity = 1 \<rparr>,
                                    \<lparr> birth = c, death = d, multiplicity = 2 \<rparr>] \<rparr>)]"
  by (simp add: parse_slices_def parse_slice_def parse_bar_def slice_example_lines assms
      del: split_on.simps)

text \<open>
  Claim C2 (as amended). \<^verbatim>\<open>_parse_slices\<close> strips every line, skips the blank ones and
  parses the others in input order, one pair per line; the first line that fails ends the
  call with its exception. A line is split at every colon and must consist of exactly two
  pieces, header and body: with no colon or more than one, \<^verbatim>\<open>ValueError\<close> is raised. The
  header is split at every space and must consist of exactly two pieces, angle and
  offset: otherwise \<^verbatim>\<open>ValueError\<close> is raised. On a line with exactly one colon whose
  header has exactly one space, the result is that of splitting once at the first colon
  and once at the first space. The body is split at commas, each token is stripped, the
  empty tokens are skipped, and each remaining token is parsed as birth, death and
  multiplicity (the token after its first character). The line
  \<^verbatim>\<open>0.0 0.0: 1.0 2.0 m1, 3.0 4.0 m2\<close> gives one slice with the key made of \<^verbatim>\<open>float\<close> of
  \<^verbatim>\<open>0.0\<close> twice and the two bars, whatever \<^verbatim>\<open>float\<close> returns for the literals.
\<close>

theorem parse_slices_exactly_one_delimiter:
  "parse_slices pfloat pint lines =
     map_err (parse_slice pfloat pint) (filter (\<lambda>l. l \<noteq> []) (map bytes_strip lines))
   \<and> (count_list line (CHR '':'') \<noteq> 1 \<longrightarrow> parse_slice pfloat pint line = Inl ValueError)
   \<and> (count_list line (CHR '':'') = 1
        \<and> count_list (fst (split_first (CHR '':'') line)) (CHR '' '') \<noteq> 1
      \<longrightarrow> parse_slice pfloat pint line = Inl ValueError)
   \<and> (count_list line (CHR '':'') = 1
        \<and> count_list (fst (split_first (CHR '':'') line)) (CHR '' '') = 1
      \<longrightarrow> parse_slice pfloat pint line = parse_slice_split_once pfloat pint line)
   \<and> parse_bars pfloat pint parts [] =
       map_err (parse_bar pfloat pint) (filter (\<lambda>p. p \<noteq> []) (map bytes_strip parts))
   \<and> (pfloat ''0.0'' = Inr z \<and> pfloat ''1.0'' = Inr a \<and> pfloat ''2.0'' = Inr b
        \<and> pfloat ''3.0'' = Inr c \<and> pfloat ''4.0'' = Inr d
        \<and> pint ''1'' = Inr 1 \<and> pint ''2'' = Inr 2
      \<longrightarrow> parse_slices pfloat pint [''0.0 0.0: 1.0 2.0 m1, 3.0 4.0 m2'']
           = Inr [((z, z), \<lparr> bars = [\<lparr> birth = a, death = b, multiplicity = 1 \<rparr>,
                                    \<lparr> birth = c, death = d, multiplicity = 2 \<rparr>] \<rparr>)])"
proof (intro conjI impI)
  show "parse_slices pfloat pint lines =
     map_err (parse_slice pfloat pint) (filter (\<lambda>l. l \<noteq> []) (map bytes_strip lines))"
    by (rule parse_slices_map_err)
next
  assume "count_list line (CHR '':'') \<noteq> 1"
  then show "parse_slice pfloat pint line = Inl ValueError"
    by (rule parse_slice_colons)
next
  assume "count_list line (CHR '':'') = 1
        \<and> count_list (fst (split_first (CHR '':'') line)) (CHR '' '') \<noteq> 1"
  then show "parse_slice pfloat pint line = Inl ValueError"
    using parse_slice_spaces [of line pfloat pint] by blast
next
  assume "count_list line (CHR '':'') = 1
        \<and> count_list (fst (split_first (CHR '':'') line)) (CHR '' '') = 1"
  then show "parse_slice pfloat pint line = parse_slice_split_once pfloat pint line"
    using parse_slice_once [of line pfloat pint] by blast
next
  show "parse_bars pfloat pint parts [] =
       map_err (parse_bar pfloat pint) (filter (\<lambda>p. p \<noteq> []) (map bytes_strip parts))"
    by (rule parse_bars_map_err)
next
  assume "pfloat ''0.0'' = Inr z \<and> pfloat ''1.0'' = Inr a \<and> pfloat ''2.0'' = Inr b
        \<and> pfloat ''3.0'' = Inr c \<and> pfloat ''4.0'' = Inr d
        \<and> pint ''1'' = Inr 1 \<and> pint ''2'' = Inr 2"
  then show "parse_slices pfloat pint [''0.0 0.0: 1.0 2.0 m1, 3.0 4.0 m2'']
           = Inr [((z, z), \<lparr> bars = [\<lparr> birth = a, death = b, multiplicity = 1 \<rparr>,
                                    \<lparr> birth = c, death = d, multiplicity = 2 \<rparr>] \<rparr>)]"
    using parse_slices_example [of pfloat z a b c d pint] by blast
qed

text \<open>
  The theorem with the literal readers: at a line without a colon, at a line whose
  header has two spaces, at the line of the specification, and at four lines of which two
  are blank.
\<close>

theorem parse_slices_exactly_one_delimiter_witness:
  "parse_slice literal_float literal_int ''0 0 1 2 m1'' = Inl ValueError
   \<and> parse_slice literal_float literal_int ''0  0: 1 2 m1'' = Inl ValueError
   \<and> parse_slice literal_float literal_int ''0.0 0.0: 1.0 2.0 m1, 3.0 4.0 m2''
       = Inr ((0, 0), \<lparr> bars = [\<lparr> birth = 1, death = 2, multiplicity = 1 \<rparr>,
                                \<lparr> birth = 3, death = 4, multiplicity = 2 \<rparr>] \<rparr>)
   \<and> parse_slices literal_float literal_int [''0.0 0.0: 1.0 2.0 m1, 3.0 4.0 m2'']
       = Inr [((0, 0), \<lparr> bars = [\<lparr> birth = 1, death = 2, multiplicity = 1 \<rparr>,
                                 \<lparr> birth = 3, death = 4, multiplicity = 2 \<rparr>] \<rparr>)]
   \<and> parse_slices literal_float literal_int [ [], ''1 0: 5 6 m3,'', ''  '', ''2 0:'']
       = Inr [((1, 0), \<lparr> bars = [\<lparr> birth = 5, death = 6, multiplicity = 3 \<rparr>] \<rparr>),
              ((2, 0), \<lparr> bars = [] \<rparr>)]"
proof -
  let ?spec = "''0.0 0.0: 1.0 2.0 m1, 3.0 4.0 m2''"
  let ?four = "[ [], ''1 0: 5 6 m3,'', ''  '', ''2 0:'']"
  have h1: "count_list ''0 0 1 2 m1'' (CHR '':'') \<noteq> 1" by code_simp
  have h2: "count_list ''0  0: 1 2 m1'' (CHR '':'') = 1
        \<and> count_list (fst (split_first (CHR '':'') ''0  0: 1 2 m1'')) (CHR '' '') \<noteq> 1"
    by code_simp
  have h3: "count_list ?spec (CHR '':'') = 1
        \<and> count_list (fst (split_first (CHR '':'') ?spec)) (CHR '' '') = 1"
    by code_simp
  have h4: "literal_float ''0.0'' = Inr 0 \<and> literal_float ''1.0'' = Inr 1
        \<and> literal_float ''2.0'' = Inr 2 \<and> literal_float ''3.0'' = Inr 3
        \<and> literal_float ''4.0'' = Inr 4 \<and> literal_int ''1'' = Inr 1 \<and> literal_int ''2'' = Inr 2"
    by code_simp
  have e3: "parse_slice_split_once literal_float literal_int ?spec
       = Inr ((0, 0), \<lparr> bars = [\<lparr> birth = 1, death = 2, multiplicity = 1 \<rparr>,
                                \<lparr> birth = 3, death = 4, multiplicity = 2 \<rparr>] \<rparr>)"
    by code_simp
  have e5: "map_err (parse_slice literal_float literal_int)
              (filter (\<lambda>l. l \<noteq> []) (map bytes_strip ?four))
       = Inr [((1, 0), \<lparr> bars = [\<lparr> birth = 5, death = 6, multiplicity = 3 \<rparr>] \<rparr>),
              ((2, 0), \<lparr> bars = [] \<rparr>)]"
    by code_simp
  from parse_slices_exactly_one_delimiter [of literal_float literal_int ?four "''0 0 1 2 m1''"] h1 e5
  have a: "parse_slice literal_float literal_int ''0 0 1 2 m1'' = Inl ValueError"
    and e: "parse_slices literal_float literal_int ?four
       = Inr [((1, 0), \<lparr> bars = [\<lparr> birth = 5, death = 6, multiplicity = 3 \<rparr>] \<rparr>),
              ((2, 0), \<lparr> bars = [] \<rparr>)]"
    by simp_all
  from parse_slices_exactly_one_delimiter [of literal_float literal_int "[]" "''0  0: 1 2 m1''"] h2
  have b: "parse_slice literal_float literal_int ''0  0: 1 2 m1'' = Inl ValueError"
    by blast
  note t = parse_slices_exactly_one_delimiter
    [of literal_float literal_int "[]" ?spec "[]" 0 1 2 3 4]
  from t h3 have "parse_slice literal_float literal_int ?spec
       = parse_slice_split_once literal_float literal_int ?spec"
    by blast
  with e3 have c: "parse_slice literal_float literal_int ?spec
       = Inr ((0, 0), \<lparr> bars = [\<lparr> birth = 1, death = 2, multiplicity = 1 \<rparr>,
                                \<lparr> birth = 3, death = 4, multiplicity = 2 \<rparr>] \<rparr>)"
    by simp
  from t h4 have d: "parse_slices literal_float literal_int [?spec]
       = Inr [((0, 0), \<lparr> bars = [\<lparr> birth = 1, death = 2, multiplicity = 1 \<rparr>,
                                 \<lparr> birth = 3, death = 4, multiplicity = 2 \<rparr>] \<rparr>)]"
    by blast
  from a b c d e show ?thesis by blast
qed

text \<open>
  The line \<^verbatim>\<open>0  0: 1 2 m1\<close> has two spaces in its header. Splitting the header once, at
  its first space, gives the angle \<^verbatim>\<open>0\<close> and the offset \<^verbatim>\<open> 0\<close>, both floats, and so a
  slice; the source splits at both spaces into three pieces and raises \<^verbatim>\<open>ValueError\<close>.
\<close>

theorem parse_slices_split_once_counterexample:
  "parse_slices literal_float literal_int [''0  0: 1 2 m1''] = Inl ValueError
   \<and> parse_slice_split_once literal_float literal_int (bytes_strip ''0  0: 1 2 m1'')
       = Inr ((0, 0), \<lparr> bars = [\<lparr> birth = 1, death = 2, multiplicity = 1 \<rparr>] \<rparr>)"
  by code_simp

subsection \<open>common_bounds\<close>

lemma py_min_Num: "py_min (Num x) (Num y) = Num (min x y)"
  by (auto simp: py_min_def min_def)

lemma py_max_Num: "py_max (Num x) (Num y) = Num (max x y)"
  by (auto simp: py_max_def number_greater_def max_def)

lemma common_bounds_pairs:
  assumes "lower_left a = [a0, a1]" "upper_right a = [a2, a3]"
    and "lower_left b = [b0, b1]" "upper_right b = [b2, b3]"
  shows "common_bounds a b =
           Inr \<lparr> lower_left = [py_min a0 b0, py_min a1 b1],
                 upper_right = [py_max a2 b2, py_max a3 b3] \<rparr>"
  by (simp add: common_bounds_def list_get_def assms)

lemma common_bounds_numbers:
  assumes "lower_left a = [Num al0, Num al1]" "upper_right a = [Num au0, Num au1]"
    and "lower_left b = [Num bl0, Num bl1]" "upper_right b = [Num bu0, Num bu1]"
  shows "common_bounds a b =
           Inr \<lparr> lower_left = [Num (min al0 bl0), Num (min al1 bl1)],
                 upper_right = [Num (max au0 bu0), Num (max au1 bu1)] \<rparr>"
  by (simp add: common_bounds_pairs [OF assms] py_min_Num py_max_Num)

text \<open>
  Claim C7 (as amended). For Bounds \<open>a\<close>, \<open>b\<close>, \<open>c\<close> whose corners are 2-element tuples of
  numbers, none of them NaN, \<^verbatim>\<open>common_bounds\<close> returns the coordinate-wise minimum of the
  lower-left corners and the coordinate-wise maximum of the upper-right corners; it is
  commutative, and associative: both bracketings of \<open>a\<close>, \<open>b\<close>, \<open>c\<close> return the same
  Bounds. The operands are read only: \<^verbatim>\<open>common_bounds\<close> is a function of their values and
  returns a new object.
\<close>

theorem common_bounds_min_max_comm_assoc:
  assumes "lower_left a = [Num al0, Num al1]" "upper_right a = [Num au0, Num au1]"
    and "lower_left b = [Num bl0, Num bl1]" "upper_right b = [Num bu0, Num bu1]"
    and "lower_left c = [Num cl0, Num cl1]" "upper_right c = [Num cu0, Num cu1]"
  shows "common_bounds a b =
           Inr \<lparr> lower_left = [Num (min al0 bl0), Num (min al1 bl1)],
                 upper_right = [Num (max au0 bu0), Num (max au1 bu1)] \<rparr>
         \<and> common_bounds a b = common_bounds b a
         \<and> (\<exists>ab bc r. common_bounds a b = Inr ab \<and> common_bounds b c = Inr bc \<and>
                common_bounds ab c = Inr r \<and> common_bounds a bc = Inr r)"
proof (intro conjI)
  let ?ab = "\<lparr> lower_left = [Num (min al0 bl0), Num (min al1 bl1)],
                 upper_right = [Num (max au0 bu0), Num (max au1 bu1)] \<rparr>"
  let ?bc = "\<lparr> lower_left = [Num (min bl0 cl0), Num (min bl1 cl1)],
                 upper_right = [Num (max bu0 cu0), Num (max bu1 cu1)] \<rparr>"
  show ab: "common_bounds a b = Inr ?ab"
    using assms(1-4) by (rule common_bounds_numbers)
  have ba: "common_bounds b a =
              Inr \<lparr> lower_left = [Num (min bl0 al0), Num (min bl1 al1)],
                    upper_right = [Num (max bu0 au0), Num (max bu1 au1)] \<rparr>"
    using assms(3,4,1,2) by (rule common_bounds_numbers)
  show "common_bounds a b = common_bounds b a"
    by (simp only: ab ba min.commute [of al0] min.commute [of al1]
        max.commute [of au0] max.commute [of au1])
  have bc: "common_bounds b c = Inr ?bc"
    using assms(3-6) by (rule common_bounds_numbers)
  have l: "common_bounds ?ab c =
             Inr \<lparr> lower_left = [Num (min (min al0 bl0) cl0), Num (min (min al1 bl1) cl1)],
                   upper_right = [Num (max (max au0 bu0) cu0), Num (max (max au1 bu1) cu1)] \<rparr>"
    using assms(5,6) by (intro common_bounds_numbers) simp_all
  have r: "common_bounds a ?bc =
             Inr \<lparr> lower_left = [Num (min al0 (min bl0 cl0)), Num (min al1 (min bl1 cl1))],
                   upper_right = [Num (max au0 (max bu0 cu0)), Num (max au1 (max bu1 cu1))] \<rparr>"
    using assms(1,2) by (intro common_bounds_numbers) simp_all
  from l r have "common_bounds ?ab c = common_bounds a ?bc"
    by (simp only: min.assoc max.assoc)
  with ab bc l
  show "\<exists>ab bc r. common_bounds a b = Inr ab \<and> common_bounds b c = Inr bc \<and>
                common_bounds ab c = Inr r \<and> common_bounds a bc = Inr r"
    by metis
qed

text \<open>The theorem at three rectangles with integer corners.\<close>

theorem common_bounds_min_max_comm_assoc_witness:
  "common_bounds \<lparr>lower_left = [Num (0::int), Num 5], upper_right = [Num 3, Num 9]\<rparr>
                 \<lparr>lower_left = [Num 1, Num 2], upper_right = [Num 4, Num 4]\<rparr>
     = Inr \<lparr>lower_left = [Num 0, Num 2], upper_right = [Num 4, Num 9]\<rparr>
   \<and> common_bounds \<lparr>lower_left = [Num 1, Num 2], upper_right = [Num 4, Num 4]\<rparr>
                   \<lparr>lower_left = [Num (0::int), Num 5], upper_right = [Num 3, Num 9]\<rparr>
     = Inr \<lparr>lower_left = [Num 0, Num 2], upper_right = [Num 4, Num 9]\<rparr>
   \<and> common_bounds \<lparr>lower_left = [Num (0::int), Num 2], upper_right = [Num 4, Num 9]\<rparr>
                   \<lparr>lower_left = [Num (- 1), Num 7], upper_right = [Num 2, Num 10]\<rparr>
     = Inr \<lparr>lower_left = [Num (- 1), Num 2], upper_right = [Num 4, Num 10]\<rparr>
   \<and> common_bounds \<lparr>lower_left = [Num (1::int), Num 2], upper_right = [Num 4, Num 4]\<rparr>
                   \<lparr>lower_left = [Num (- 1), Num 7], upper_right = [Num 2, Num 10]\<rparr>
     = Inr \<lparr>lower_left = [Num (- 1), Num 2], upper_right = [Num 4, Num 10]\<rparr>
   \<and> common_bounds \<lparr>lower_left = [Num (0::int), Num 5], upper_right = [Num 3, Num 9]\<rparr>
                   \<lparr>lower_left = [Num (- 1), Num 2], upper_right = [Num 4, Num 10]\<rparr>
     = Inr \<lparr>lower_left = [Num (- 1), Num 2], upper_right = [Num 4, Num 10]\<rparr>"
proof -
  let ?a = "\<lparr>lower_left = [Num (0::int), Num 5], upper_right = [Num 3, Num 9]\<rparr>"
  let ?b = "\<lparr>lower_left = [Num (1::int), Num 2], upper_right = [Num 4, Num 4]\<rparr>"
  let ?c = "\<lparr>lower_left = [Num (- 1::int), Num 7], upper_right = [Num 2, Num 10]\<rparr>"
  have h: "lower_left ?a = [Num 0, Num 5]" "upper_right ?a = [Num 3, Num 9]"
    "lower_left ?b = [Num 1, Num 2]" "upper_right ?b = [Num 4, Num 4]"
    "lower_left ?c = [Num (- 1), Num 7]" "upper_right ?c = [Num 2, Num 10]"
    by simp_all
  note t = common_bounds_min_max_comm_assoc [OF h]
  from t have ab: "common_bounds ?a ?b
      = Inr \<lparr>lower_left = [Num 0, Num 2], upper_right = [Num 4, Num 9]\<rparr>"
    by simp
  from t have ba: "common_bounds ?a ?b = common_bounds ?b ?a" by (elim conjE)
  from t have as: "\<exists>ab bc r. common_bounds ?a ?b = Inr ab \<and> common_bounds ?b ?c = Inr bc \<and>
                common_bounds ab ?c = Inr r \<and> common_bounds ?a bc = Inr r"
    by (elim conjE)
  from common_bounds_min_max_comm_assoc [OF h(3-6) h(1,2)]
  have bc: "common_bounds ?b ?c
      = Inr \<lparr>lower_left = [Num (- 1), Num 2], upper_right = [Num 4, Num 10]\<rparr>"
    by simp
  from as obtain ab' bc' r where
    r: "common_bounds ?a ?b = Inr ab'" "common_bounds ?b ?c = Inr bc'"
       "common_bounds ab' ?c = Inr r" "common_bounds ?a bc' = Inr r"
    by blast
  from r(1) ab have ab': "ab' = \<lparr>lower_left = [Num 0, Num 2], upper_right = [Num 4, Num 9]\<rparr>"
    by simp
  from r(2) bc have bc': "bc' = \<lparr>lower_left = [Num (- 1), Num 2], upper_right = [Num 4, Num 10]\<rparr>"
    by simp
  have "common_bounds \<lparr>lower_left = [Num (0::int), Num 2], upper_right = [Num 4, Num 9]\<rparr> ?c
          = Inr \<lparr>lower_left = [Num (- 1), Num 2], upper_right = [Num 4, Num 10]\<rparr>"
    by (simp add: common_bounds_pairs py_min_Num py_max_Num)
  with r(3,4) ab' bc' ab ba bc show ?thesis by simp
qed

text \<open>
  \<^verbatim>\<open>min\<close> keeps its first argument unless the second is less than it, and no
  comparison with NaN is true: \<^verbatim>\<open>min(nan, 1.0)\<close> is NaN and \<^verbatim>\<open>min(1.0, nan)\<close> is 1.0. Two
  Bounds that differ in one NaN coordinate of the lower-left corner give different
  results in the two orders.
\<close>

theorem common_bounds_nan_counterexample:
  "common_bounds \<lparr>lower_left = [NaN, Num (0::int)], upper_right = [Num 1, Num 1]\<rparr>
                 \<lparr>lower_left = [Num 1, Num 0], upper_right = [Num 1, Num 1]\<rparr>
     = Inr \<lparr>lower_left = [NaN, Num 0], upper_right = [Num 1, Num 1]\<rparr>
   \<and> common_bounds \<lparr>lower_left = [Num 1, Num 0], upper_right = [Num 1, Num 1]\<rparr>
                   \<lparr>lower_left = [NaN, Num (0::int)], upper_right = [Num 1, Num 1]\<rparr>
     = Inr \<lparr>lower_left = [Num 1, Num 0], upper_right = [Num 1, Num 1]\<rparr>"
  by (simp add: common_bounds_pairs py_min_def py_max_def number_greater_def)

end
